theory Spec2Isabelle
  imports Main "HOL-Library.AList"
begin

section \<open>JavaScript values and objects\<close>

text \<open>
  The sandboxes of \<^verbatim>\<open>src/sandbox\<close> work on JavaScript objects: the shared
  \<^verbatim>\<open>window\<close> and, for the multi-instance sandbox, a private \<^verbatim>\<open>fakeWindow\<close>.

  A property key is a string or a symbol (\<^verbatim>\<open>typeof p === 'symbol'\<close>).
\<close>

datatype pkey = StrKey string | SymKey string

fun is_symbol :: "pkey \<Rightarrow> bool" where
  "is_symbol (SymKey _) = True"
| "is_symbol (StrKey _) = False"

text \<open>
  Values. Objects and functions are references. Some have a constructor of their own
  because the code compares, returns or calls them: the shared window
  (\<^verbatim>\<open>rawWindow\<close>), the facade \<^verbatim>\<open>new Proxy(fakeWindow, ...)\<close> of the \<open>n\<close>-th
  sandbox, the closure \<^verbatim>\<open>hasOwnProperty\<close> that the constructor of that sandbox
  creates, the module constant \<^verbatim>\<open>unscopables\<close>, and the built-in function
  \<^verbatim>\<open>Object.prototype.hasOwnProperty\<close>. \<open>ObjRef\<close> is any other object that is not a
  function and \<open>FunRef\<close> any other function.
\<close>

datatype jsval =
    Undefined
  | Null
  | JBool bool
  | JNum int
  | JStr string
  | ObjRef nat
  | FunRef nat
  | WindowRef
  | ProxyRef nat
  | HasOwnPropertyRef nat
  | UnscopablesRef
  | ObjectHasOwnProperty

text \<open>\<^verbatim>\<open>IsCallable\<close>. A facade is a \<^verbatim>\<open>Proxy\<close> of an object that is not a function, so
  it is not callable.\<close>

fun is_callable :: "jsval \<Rightarrow> bool" where
  "is_callable (FunRef _) = True"
| "is_callable (HasOwnPropertyRef _) = True"
| "is_callable ObjectHasOwnProperty = True"
| "is_callable _ = False"

text \<open>
  A property is a data property (value, writable, enumerable, configurable) or an
  accessor property (getter, setter, enumerable, configurable). The getter of an
  accessor is modelled by the value it yields (\<^verbatim>\<open>undefined\<close> when there is none).
  Of the setter the model keeps what an assignment needs:

  \<^item> \<open>NoSetter\<close>: \<^verbatim>\<open>set\<close> is undefined, as for \<^verbatim>\<open>window.document\<close>;
  \<^item> \<open>StoringSetter f\<close>: a setter of the browser that, called on the object that owns
    the accessor, changes nothing but what the getter yields from then on, which is
    \<open>f v\<close> (\<^verbatim>\<open>window.name = v\<close> stores the string of \<open>v\<close>; \<^verbatim>\<open>window.onclick = v\<close>
    stores \<open>v\<close> when it is an object and \<^verbatim>\<open>null\<close> otherwise);
  \<^item> \<open>ReplacingSetter\<close>: a setter of the browser that, called on the object that owns
    the accessor, replaces the accessor by a writable, enumerable, configurable data
    property with the value (\<^verbatim>\<open>window.innerWidth = v\<close>, \<^verbatim>\<open>window.parent = v\<close>);
  \<^item> \<open>ForeignSetter\<close>: any other setter; calling it runs code that is not part of the
    repository.
\<close>

datatype setter =
    NoSetter
  | StoringSetter "jsval \<Rightarrow> jsval"
  | ReplacingSetter
  | ForeignSetter

datatype property =
    DataProp (pvalue: jsval) (pwritable: bool) (enumerable: bool) (configurable: bool)
  | AccessorProp (pvalue: jsval) (psetter: setter) (enumerable: bool) (configurable: bool)

text \<open>
  An object is modelled by its own properties, by what it inherits, and by its
  extensibility flag. \<open>inherited obj p\<close> is the property that the prototype
  chain of the object shows for the key \<open>p\<close> (the first one found on the way up),
  and \<open>None\<close> when no prototype has the key. The code of the sandboxes never writes
  to a prototype, so the field only changes when code of the page changes it.
\<close>

record jsobject =
  own :: "pkey \<rightharpoonup> property"
  inherited :: "pkey \<rightharpoonup> property"
  extensible :: bool

text \<open>\<^verbatim>\<open>descriptor.writable\<close>: undefined, hence falsy, on an accessor descriptor.\<close>

fun desc_writable :: "property \<Rightarrow> bool" where
  "desc_writable (DataProp _ w _ _) = w"
| "desc_writable (AccessorProp _ _ _ _) = False"

text \<open>\<^verbatim>\<open>Object.prototype.hasOwnProperty.call(descriptor, 'get')\<close>\<close>

fun hasGetter :: "property \<Rightarrow> bool" where
  "hasGetter (DataProp _ _ _ _) = False"
| "hasGetter (AccessorProp _ _ _ _) = True"

text \<open>
  A call either returns a value or does not. It does not when it throws, and it does
  not, as far as the model goes, when it hands control to a function that is not the
  repository's (a setter or a method that the page has put in place):
  \<open>ForeignCall\<close> says that such a function was called; what happens from there on
  is not described, and the state reported with it is the state at the call.
\<close>

datatype js_error = TypeError | QiankunError string | ForeignCall

type_synonym 'a outcome = "js_error + 'a"

text \<open>\<^verbatim>\<open>o[p]\<close>: the value of the own property, else of the inherited one, else
  \<^verbatim>\<open>undefined\<close>.\<close>

definition js_get :: "jsobject \<Rightarrow> pkey \<Rightarrow> jsval" where
  "js_get obj p =
     (case own obj p of
        Some d \<Rightarrow> pvalue d
      | None \<Rightarrow> (case inherited obj p of Some d \<Rightarrow> pvalue d | None \<Rightarrow> Undefined))"

text \<open>\<^verbatim>\<open>p in o\<close>\<close>

definition js_in :: "jsobject \<Rightarrow> pkey \<Rightarrow> bool" where
  "js_in obj p \<longleftrightarrow> own obj p \<noteq> None \<or> inherited obj p \<noteq> None"

definition put_own :: "jsobject \<Rightarrow> pkey \<Rightarrow> property \<Rightarrow> jsobject" where
  "put_own obj p d = obj\<lparr> own := (own obj)(p \<mapsto> d) \<rparr>"

text \<open>
  \<^verbatim>\<open>o[p] = v\<close>. The sandbox classes and their modules are strict-mode code (class
  bodies and ES modules always are), so an assignment that the object rejects throws
  a \<^verbatim>\<open>TypeError\<close>. An own data property takes the value when it is writable. An own
  accessor runs its setter. A key that is not an own property is looked up in the
  prototype chain: an inherited read-only data property or an inherited accessor
  without a setter rejects the assignment; an inherited setter is called with \<open>o\<close>
  as receiver (\<^verbatim>\<open>o['__proto__'] = v\<close> is such a call and creates no own property),
  which the model does not follow; otherwise a writable, enumerable, configurable own
  property is created, unless the object is not extensible.
\<close>

definition js_assign :: "jsobject \<Rightarrow> pkey \<Rightarrow> jsval \<Rightarrow> jsobject outcome" where
  "js_assign obj p v =
     (case own obj p of
        Some (DataProp _ w e c) \<Rightarrow>
          if w then Inr (put_own obj p (DataProp v w e c)) else Inl TypeError
      | Some (AccessorProp _ st e c) \<Rightarrow>
          (case st of
             NoSetter \<Rightarrow> Inl TypeError
           | StoringSetter f \<Rightarrow> Inr (put_own obj p (AccessorProp (f v) st e c))
           | ReplacingSetter \<Rightarrow> Inr (put_own obj p (DataProp v True True True))
           | ForeignSetter \<Rightarrow> Inl ForeignCall)
      | None \<Rightarrow>
          (case inherited obj p of
             Some (AccessorProp _ st _ _) \<Rightarrow>
               (case st of NoSetter \<Rightarrow> Inl TypeError | _ \<Rightarrow> Inl ForeignCall)
           | Some (DataProp _ w _ _) \<Rightarrow>
               if w \<and> extensible obj then Inr (put_own obj p (DataProp v True True True))
               else Inl TypeError
           | None \<Rightarrow>
               if extensible obj then Inr (put_own obj p (DataProp v True True True))
               else Inl TypeError))"

text \<open>\<^verbatim>\<open>delete o[p]\<close> in strict mode: a non-configurable own property cannot be
  deleted and the operator throws.\<close>

definition js_delete :: "jsobject \<Rightarrow> pkey \<Rightarrow> jsobject outcome" where
  "js_delete obj p =
     (case own obj p of
        None \<Rightarrow> Inr obj
      | Some d \<Rightarrow>
          if configurable d then Inr (obj\<lparr> own := (own obj)(p := None) \<rparr>) else Inl TypeError)"

text \<open>
  \<^verbatim>\<open>o.hasOwnProperty(p)\<close> is a method call: the method is what \<^verbatim>\<open>o.hasOwnProperty\<close>
  yields, an own property of \<open>o\<close> when there is one and the inherited one otherwise.
  The built-in method tests the own properties of \<open>o\<close>. Any other function is code of
  the page, and a value that is no function cannot be called.
\<close>

definition call_hasOwnProperty :: "jsobject \<Rightarrow> pkey \<Rightarrow> bool outcome" where
  "call_hasOwnProperty obj p =
     (if js_get obj (StrKey ''hasOwnProperty'') = ObjectHasOwnProperty
      then Inr (own obj p \<noteq> None)
      else if is_callable (js_get obj (StrKey ''hasOwnProperty'')) then Inl ForeignCall
      else Inl TypeError)"

text \<open>
  A property descriptor as \<^verbatim>\<open>Object.defineProperty\<close> and \<^verbatim>\<open>Reflect.defineProperty\<close>
  take it: every field may be absent. As in a property, \<open>d_get\<close> is the value that the
  getter yields. A descriptor has no \<^verbatim>\<open>value\<close> or \<^verbatim>\<open>writable\<close> together with a
  \<^verbatim>\<open>get\<close> or \<^verbatim>\<open>set\<close> (the conversion of the attributes object throws before any
  trap or object sees it).
\<close>

record descriptor =
  d_value :: "jsval option"
  d_writable :: "bool option"
  d_get :: "jsval option"
  d_set :: "setter option"
  d_enumerable :: "bool option"
  d_configurable :: "bool option"

definition is_accessor_descriptor :: "descriptor \<Rightarrow> bool" where
  "is_accessor_descriptor D \<longleftrightarrow> d_get D \<noteq> None \<or> d_set D \<noteq> None"

definition is_data_descriptor :: "descriptor \<Rightarrow> bool" where
  "is_data_descriptor D \<longleftrightarrow> d_value D \<noteq> None \<or> d_writable D \<noteq> None"

text \<open>The field of a descriptor when it is present, a default otherwise.\<close>

fun or_else :: "'a option \<Rightarrow> 'a \<Rightarrow> 'a" where
  "or_else None x = x"
| "or_else (Some y) x = y"

text \<open>
  The internal method \<^verbatim>\<open>DefineOwnProperty\<close> of an ordinary object
  (\<^verbatim>\<open>ValidateAndApplyPropertyDescriptor\<close>): it says whether the definition was
  accepted and returns the object. A new property needs an extensible object, and its
  absent fields are \<^verbatim>\<open>undefined\<close> and false. A non-configurable property cannot
  become configurable, change its enumerability or its kind, and when it is a
  read-only data property it cannot become writable or change its value; a
  non-configurable accessor cannot change its getter or setter. Otherwise the fields
  that are present replace the attributes of the property; a change of kind keeps
  enumerability and configurability and resets the other attributes.
\<close>

definition defineOwnProperty :: "jsobject \<Rightarrow> pkey \<Rightarrow> descriptor \<Rightarrow> bool \<times> jsobject" where
  "defineOwnProperty obj p D =
     (case own obj p of
        None \<Rightarrow>
          if \<not> extensible obj then (False, obj)
          else if is_accessor_descriptor D
          then (True, put_own obj p
                  (AccessorProp (or_else (d_get D) Undefined) (or_else (d_set D) NoSetter)
                     (or_else (d_enumerable D) False) (or_else (d_configurable D) False)))
          else (True, put_own obj p
                  (DataProp (or_else (d_value D) Undefined) (or_else (d_writable D) False)
                     (or_else (d_enumerable D) False) (or_else (d_configurable D) False)))
      | Some cur \<Rightarrow>
          if \<not> configurable cur \<and>
             (d_configurable D = Some True \<or>
              (d_enumerable D \<noteq> None \<and> d_enumerable D \<noteq> Some (enumerable cur)))
          then (False, obj)
          else
            (case cur of
               DataProp v0 w0 e0 c0 \<Rightarrow>
                 if is_accessor_descriptor D then
                   (if \<not> c0 then (False, obj)
                    else (True, put_own obj p
                            (AccessorProp (or_else (d_get D) Undefined) (or_else (d_set D) NoSetter)
                               (or_else (d_enumerable D) e0) (or_else (d_configurable D) c0))))
                 else if \<not> c0 \<and> \<not> w0 \<and>
                         (d_writable D = Some True \<or>
                          (d_value D \<noteq> None \<and> d_value D \<noteq> Some v0))
                 then (False, obj)
                 else (True, put_own obj p
                         (DataProp (or_else (d_value D) v0) (or_else (d_writable D) w0)
                            (or_else (d_enumerable D) e0) (or_else (d_configurable D) c0)))
             | AccessorProp g0 st0 e0 c0 \<Rightarrow>
                 if is_data_descriptor D then
                   (if \<not> c0 then (False, obj)
                    else (True, put_own obj p
                            (DataProp (or_else (d_value D) Undefined) (or_else (d_writable D) False)
                               (or_else (d_enumerable D) e0) (or_else (d_configurable D) c0))))
                 else if \<not> c0 \<and>
                         ((d_set D \<noteq> None \<and> d_set D \<noteq> Some st0) \<or>
                          (d_get D \<noteq> None \<and> d_get D \<noteq> Some g0))
                 then (False, obj)
                 else (True, put_own obj p
                         (AccessorProp (or_else (d_get D) g0) (or_else (d_set D) st0)
                            (or_else (d_enumerable D) e0) (or_else (d_configurable D) c0)))))"

text \<open>\<^verbatim>\<open>Object.defineProperty(o, p, D)\<close> throws a \<^verbatim>\<open>TypeError\<close> where
  \<^verbatim>\<open>Reflect.defineProperty(o, p, D)\<close> returns false.\<close>

definition Object_defineProperty :: "jsobject \<Rightarrow> pkey \<Rightarrow> descriptor \<Rightarrow> jsobject outcome" where
  "Object_defineProperty obj p D =
     (case defineOwnProperty obj p D of
        (True, obj1) \<Rightarrow> Inr obj1
      | (False, _) \<Rightarrow> Inl TypeError)"

section \<open>Module constants of \<^verbatim>\<open>proxySandbox.ts\<close>\<close>

text \<open>
  \<^verbatim>\<open>process.env.NODE_ENV\<close> and \<^verbatim>\<open>window.__QIANKUN_DEVELOPMENT__\<close> are read when the
  module is loaded; they are parameters of the model.
\<close>

datatype node_env = Development | Test | Production

record env =
  nodeEnv :: node_env
  qiankunDevelopment :: bool

definition variableWhiteListInDev :: "env \<Rightarrow> pkey list" where
  "variableWhiteListInDev ev =
     (if nodeEnv ev = Development \<or> qiankunDevelopment ev
      then [StrKey ''__REACT_ERROR_OVERLAY_GLOBAL_HOOK__'']
      else [])"

definition variableWhiteList :: "env \<Rightarrow> pkey list" where
  "variableWhiteList ev =
     [StrKey ''System'', StrKey ''__cjsWrapper''] @ variableWhiteListInDev ev"

definition symbol_unscopables :: pkey where
  "symbol_unscopables = SymKey ''Symbol.unscopables''"

section \<open>Shared state\<close>

text \<open>
  The state that all sandboxes share: the real \<^verbatim>\<open>window\<close>, the properties of
  \<^verbatim>\<open>Object.prototype\<close> (which an object literal inherits), the module variable
  \<^verbatim>\<open>activeSandboxCount\<close>, the marker of \<^verbatim>\<open>setCurrentRunningSandboxProxy\<close>, and a
  counter for the identities of the facades created so far.
\<close>

record world =
  window :: jsobject
  objectPrototype :: "pkey \<rightharpoonup> property"
  activeSandboxCount :: int
  currentRunningSandboxProxy :: "jsval option"
  nextProxyId :: nat

text \<open>The interface \<^verbatim>\<open>SandBox\<close>, which both proxy sandboxes implement.\<close>

record sandbox =
  name :: string
  proxy :: jsval
  sandboxRunning :: bool
  latestSetProp :: "pkey option"

section \<open>ProxySandbox (multi-instance)\<close>

datatype symbol_target = Target | RawWindow

record proxy_sandbox = sandbox +
  updatedValueSet :: "pkey set"
  fakeWindow :: jsobject
  propertiesWithGetter :: "pkey \<Rightarrow> bool"
  descriptorTargetMap :: "pkey \<rightharpoonup> symbol_target"
  hasOwnProperty :: jsval

text \<open>
  \<^verbatim>\<open>createFakeWindow\<close> starts from the object literal \<^verbatim>\<open>{}\<close>, an extensible object
  that inherits the properties of \<^verbatim>\<open>Object.prototype\<close> (the second argument here),
  and copies the non-configurable own properties of the global object into it.
  \<^verbatim>\<open>Object.getOwnPropertyNames\<close> lists string keys only, and every step of the
  \<^verbatim>\<open>forEach\<close> defines exactly its own key on an object that does not have it, so
  the own properties of the result are given key by key. The descriptors of top,
  parent, self and window are made configurable, and writable unless they are
  accessors. The setter of a copied accessor is the function of the global object; on
  the copy it would run with the copy as receiver, which the setters of the browser
  are not described for, so it is a \<open>ForeignSetter\<close> there.
  \<^verbatim>\<open>propertiesWithGetter\<close> is a \<^verbatim>\<open>Map\<close> that the code only asks \<^verbatim>\<open>has(p)\<close>: it is
  the predicate of its keys.
\<close>

definition escape_key :: "env \<Rightarrow> pkey \<Rightarrow> bool" where
  "escape_key ev p \<longleftrightarrow>
     p = StrKey ''top'' \<or> p = StrKey ''parent'' \<or> p = StrKey ''self'' \<or> p = StrKey ''window'' \<or>
     (nodeEnv ev = Test \<and> (p = StrKey ''mockTop'' \<or> p = StrKey ''mockSafariTop''))"

fun copied_setter :: "setter \<Rightarrow> setter" where
  "copied_setter NoSetter = NoSetter"
| "copied_setter (StoringSetter f) = ForeignSetter"
| "copied_setter ReplacingSetter = ForeignSetter"
| "copied_setter ForeignSetter = ForeignSetter"

fun fake_descriptor :: "bool \<Rightarrow> property \<Rightarrow> property" where
  "fake_descriptor esc (DataProp v w e c) =
     (if esc then DataProp v True e True else DataProp v w e c)"
| "fake_descriptor esc (AccessorProp v st e c) =
     (if esc then AccessorProp v (copied_setter st) e True
      else AccessorProp v (copied_setter st) e c)"

definition createFakeWindow ::
  "env \<Rightarrow> jsobject \<Rightarrow> (pkey \<rightharpoonup> property) \<Rightarrow> jsobject \<times> (pkey \<Rightarrow> bool)" where
  "createFakeWindow ev global objProto =
     (\<lparr> own = (\<lambda>p. if is_symbol p then None
                   else (case own global p of
                           None \<Rightarrow> None
                         | Some d \<Rightarrow>
                             if configurable d then None
                             else Some (fake_descriptor (escape_key ev p) d))),
         inherited = objProto,
         extensible = True \<rparr>,
      (\<lambda>p. \<not> is_symbol p \<and>
          (case own global p of None \<Rightarrow> False | Some d \<Rightarrow> \<not> configurable d \<and> hasGetter d)))"

text \<open>The constructor: a fresh overlay, a fresh facade, one more active sandbox.\<close>

definition new_ProxySandbox :: "env \<Rightarrow> string \<Rightarrow> world \<Rightarrow> proxy_sandbox \<times> world" where
  "new_ProxySandbox ev nm w =
     (let (fw, pwg) = createFakeWindow ev (window w) (objectPrototype w) in
      (\<lparr> name = nm,
         proxy = ProxyRef (nextProxyId w),
         sandboxRunning = True,
         latestSetProp = None,
         updatedValueSet = {},
         fakeWindow = fw,
         propertiesWithGetter = pwg,
         descriptorTargetMap = Map.empty,
         hasOwnProperty = HasOwnPropertyRef (nextProxyId w) \<rparr>,
       w\<lparr> activeSandboxCount := activeSandboxCount w + 1,
          nextProxyId := Suc (nextProxyId w) \<rparr>))"

text \<open>
  The traps of the facade are modelled as the handler functions they are: the result
  is what the trap returns or throws, with the state it leaves behind in either case.
  \<^verbatim>\<open>Object.defineProperty\<close> and \<^verbatim>\<open>Object.getOwnPropertyDescriptor\<close> are the
  built-in functions.

  The \<^verbatim>\<open>set\<close> trap. \<^verbatim>\<open>!target.hasOwnProperty(p) && rawWindow.hasOwnProperty(p)\<close>
  calls the second method only when the first returned false. Where both calls say
  that the overlay lacks the key and the shared window has it, \<^verbatim>\<open>descriptor!\<close> is the
  shared window's descriptor (taking \<^verbatim>\<open>writable\<close> from a descriptor that is
  \<^verbatim>\<open>undefined\<close> would throw; the built-in \<^verbatim>\<open>hasOwnProperty\<close> has just said that
  there is one).
\<close>

definition set_trap ::
  "env \<Rightarrow> proxy_sandbox \<Rightarrow> world \<Rightarrow> pkey \<Rightarrow> jsval \<Rightarrow> bool outcome \<times> world \<times> proxy_sandbox" where
  "set_trap ev s w p v =
     (if sandboxRunning s then
        (case call_hasOwnProperty (fakeWindow s) p of
           Inl e \<Rightarrow> (Inl e, w, s)
         | Inr targetHas \<Rightarrow>
             (case (if targetHas then Inr False else call_hasOwnProperty (window w) p) of
                Inl e \<Rightarrow> (Inl e, w, s)
              | Inr copyDescriptor \<Rightarrow>
                  (case (if copyDescriptor
                         then (case own (window w) p of
                                 None \<Rightarrow> Inl TypeError
                               | Some d \<Rightarrow>
                                   if desc_writable d
                                   then Object_defineProperty (fakeWindow s) p
                                          \<lparr> d_value = Some v,
                                            d_writable = Some (desc_writable d),
                                            d_get = None, d_set = None,
                                            d_enumerable = Some (enumerable d),
                                            d_configurable = Some (configurable d) \<rparr>
                                   else Inr (fakeWindow s))
                         else js_assign (fakeWindow s) p v) of
                     Inl e \<Rightarrow> (Inl e, w, s)
                   | Inr fw \<Rightarrow>
                       (let s1 = s\<lparr> fakeWindow := fw \<rparr> in
                        case (if p \<in> set (variableWhiteList ev)
                              then js_assign (window w) p v else Inr (window w)) of
                          Inl e \<Rightarrow> (Inl e, w, s1)
                        | Inr win \<Rightarrow>
                            (Inr True, w\<lparr> window := win \<rparr>,
                             s1\<lparr> updatedValueSet := insert p (updatedValueSet s1),
                                 latestSetProp := Some p \<rparr>)))))
      else (Inr True, w, s))"

text \<open>
  What the \<^verbatim>\<open>Proxy\<close> object does with the result of its \<^verbatim>\<open>set\<close> trap
  (the internal method \<^verbatim>\<open>Set\<close> of a proxy): when the trap has returned true, the
  target must not hold the key as a non-configurable read-only data property with
  another value, nor as a non-configurable accessor without a setter; otherwise the
  method throws a
  \<^verbatim>\<open>TypeError\<close>. The target of the facade is the overlay. (When the method returns
  false, the strict-mode assignment \<^verbatim>\<open>proxy[p] = v\<close> throws a \<^verbatim>\<open>TypeError\<close>; when it
  returns true, the assignment is done.)
\<close>

definition set_invariant_violated :: "jsobject \<Rightarrow> pkey \<Rightarrow> jsval \<Rightarrow> bool" where
  "set_invariant_violated target p v =
     (case own target p of
        None \<Rightarrow> False
      | Some (DataProp v0 wr _ c) \<Rightarrow> \<not> c \<and> \<not> wr \<and> v \<noteq> v0
      | Some (AccessorProp _ st _ c) \<Rightarrow>
          \<not> c \<and> (case st of NoSetter \<Rightarrow> True | _ \<Rightarrow> False))"

definition facade_set ::
  "env \<Rightarrow> proxy_sandbox \<Rightarrow> world \<Rightarrow> pkey \<Rightarrow> jsval \<Rightarrow> bool outcome \<times> world \<times> proxy_sandbox" where
  "facade_set ev s w p v =
     (case set_trap ev s w p v of
        (Inl e, w1, s1) \<Rightarrow> (Inl e, w1, s1)
      | (Inr booleanTrapResult, w1, s1) \<Rightarrow>
          if \<not> booleanTrapResult then (Inr False, w1, s1)
          else if set_invariant_violated (fakeWindow s1) p v then (Inl TypeError, w1, s1)
          else (Inr True, w1, s1))"

text \<open>
  The \<^verbatim>\<open>get\<close> trap. \<^verbatim>\<open>getTargetValue\<close> (of \<^verbatim>\<open>sandbox/common\<close>) is a parameter,
  already applied to \<^verbatim>\<open>rawWindow\<close>. Every read but that of \<^verbatim>\<open>Symbol.unscopables\<close>
  marks the facade as the currently running sandbox; the task that clears the mark
  runs after the trap has returned.
\<close>

definition get_trap ::
  "env \<Rightarrow> (jsval \<Rightarrow> jsval) \<Rightarrow> proxy_sandbox \<Rightarrow> world \<Rightarrow> pkey \<Rightarrow> jsval \<times> world" where
  "get_trap ev getTargetValue s w p =
     (if p = symbol_unscopables then (UnscopablesRef, w)
      else
        (let w' = w\<lparr> currentRunningSandboxProxy := Some (proxy s) \<rparr> in
         if p = StrKey ''window'' \<or> p = StrKey ''self'' then (proxy s, w')
         else if p = StrKey ''globalThis'' then (proxy s, w')
         else if p = StrKey ''top'' \<or> p = StrKey ''parent'' \<or>
                 (nodeEnv ev = Test \<and> (p = StrKey ''mockTop'' \<or> p = StrKey ''mockSafariTop''))
         then (if WindowRef = js_get (window w) (StrKey ''parent'')
               then (proxy s, w')
               else (js_get (window w) p, w'))
         else if p = StrKey ''hasOwnProperty'' then (hasOwnProperty s, w')
         else if p = StrKey ''document'' \<or> p = StrKey ''eval''
         then (js_get (window w) p, w')
         else
           (getTargetValue
              (if propertiesWithGetter s p then js_get (window w) p
               else if js_in (fakeWindow s) p then js_get (fakeWindow s) p
               else js_get (window w) p),
            w')))"

text \<open>The \<^verbatim>\<open>deleteProperty\<close> trap.\<close>

definition deleteProperty_trap ::
  "proxy_sandbox \<Rightarrow> world \<Rightarrow> pkey \<Rightarrow> bool outcome \<times> world \<times> proxy_sandbox" where
  "deleteProperty_trap s w p =
     (case call_hasOwnProperty (fakeWindow s) p of
        Inl e \<Rightarrow> (Inl e, w, s)
      | Inr targetHas \<Rightarrow>
          if targetHas then
            (case js_delete (fakeWindow s) p of
               Inl e \<Rightarrow> (Inl e, w, s)
             | Inr fw \<Rightarrow>
                 (Inr True, w,
                  s\<lparr> fakeWindow := fw, updatedValueSet := updatedValueSet s - {p} \<rparr>))
          else (Inr True, w, s))"

text \<open>
  What the \<^verbatim>\<open>Proxy\<close> object does with the result of its \<^verbatim>\<open>deleteProperty\<close> trap
  (the internal method \<^verbatim>\<open>Delete\<close> of a proxy): when the trap has returned true and
  the target still owns the key, the property must be configurable and the target
  extensible; otherwise the method throws a \<^verbatim>\<open>TypeError\<close>.
\<close>

definition facade_deleteProperty ::
  "proxy_sandbox \<Rightarrow> world \<Rightarrow> pkey \<Rightarrow> bool outcome \<times> world \<times> proxy_sandbox" where
  "facade_deleteProperty s w p =
     (case deleteProperty_trap s w p of
        (Inl e, w1, s1) \<Rightarrow> (Inl e, w1, s1)
      | (Inr booleanTrapResult, w1, s1) \<Rightarrow>
          if \<not> booleanTrapResult then (Inr False, w1, s1)
          else (case own (fakeWindow s1) p of
                  None \<Rightarrow> (Inr True, w1, s1)
                | Some d \<Rightarrow>
                    if \<not> configurable d \<or> \<not> extensible (fakeWindow s1)
                    then (Inl TypeError, w1, s1)
                    else (Inr True, w1, s1)))"

text \<open>
  The keys that the \<^verbatim>\<open>get\<close> trap answers before it looks at the overlay or hands
  the value of the shared window to \<^verbatim>\<open>getTargetValue\<close>: \<^verbatim>\<open>Symbol.unscopables\<close>, the
  self references, the ancestor references (with the two mock keys of a test build)
  and \<^verbatim>\<open>hasOwnProperty\<close>.
\<close>

definition intercepted_key :: "env \<Rightarrow> pkey \<Rightarrow> bool" where
  "intercepted_key ev p \<longleftrightarrow>
     p = symbol_unscopables \<or> p = StrKey ''window'' \<or> p = StrKey ''self'' \<or>
     p = StrKey ''globalThis'' \<or> p = StrKey ''top'' \<or> p = StrKey ''parent'' \<or>
     (nodeEnv ev = Test \<and> (p = StrKey ''mockTop'' \<or> p = StrKey ''mockSafariTop'')) \<or>
     p = StrKey ''hasOwnProperty''"

text \<open>
  \<^verbatim>\<open>Array.prototype.forEach\<close> and \<^verbatim>\<open>Map.prototype.forEach\<close> with a callback that
  may throw: the loop stops at the first exception, and the effects of the earlier
  iterations stay.
\<close>

fun forEach :: "('a \<Rightarrow> 'st \<Rightarrow> unit outcome \<times> 'st) \<Rightarrow> 'a list \<Rightarrow> 'st \<Rightarrow> unit outcome \<times> 'st" where
  "forEach f [] st = (Inr (), st)"
| "forEach f (x # xs) st =
     (case f x st of
        (Inl e, st') \<Rightarrow> (Inl e, st')
      | (Inr _, st') \<Rightarrow> forEach f xs st')"

text \<open>\<^verbatim>\<open>active()\<close> and \<^verbatim>\<open>inactive()\<close> of the ProxySandbox. In \<^verbatim>\<open>inactive\<close>,
  \<^verbatim>\<open>this.proxy.hasOwnProperty(p)\<close> goes through the \<^verbatim>\<open>get\<close> trap (which marks the
  facade) and then calls the closure \<^verbatim>\<open>hasOwnProperty\<close> of the constructor, which
  asks the overlay and, when that says no, the shared window.\<close>

definition ProxySandbox_active :: "proxy_sandbox \<Rightarrow> world \<Rightarrow> world \<times> proxy_sandbox" where
  "ProxySandbox_active s w =
     ((if \<not> sandboxRunning s
       then w\<lparr> activeSandboxCount := activeSandboxCount w + 1 \<rparr> else w),
      s\<lparr> sandboxRunning := True \<rparr>)"

definition merged_hasOwnProperty :: "proxy_sandbox \<Rightarrow> world \<Rightarrow> pkey \<Rightarrow> bool outcome" where
  "merged_hasOwnProperty s w key =
     (case call_hasOwnProperty (fakeWindow s) key of
        Inl e \<Rightarrow> Inl e
      | Inr targetHas \<Rightarrow>
          if targetHas then Inr True else call_hasOwnProperty (window w) key)"

definition delete_whitelisted :: "proxy_sandbox \<Rightarrow> pkey \<Rightarrow> world \<Rightarrow> unit outcome \<times> world" where
  "delete_whitelisted s p w =
     (let w1 = w\<lparr> currentRunningSandboxProxy := Some (proxy s) \<rparr> in
      case merged_hasOwnProperty s w1 p of
        Inl e \<Rightarrow> (Inl e, w1)
      | Inr has \<Rightarrow>
          if has
          then (case js_delete (window w1) p of
                  Inl e \<Rightarrow> (Inl e, w1)
                | Inr win \<Rightarrow> (Inr (), w1\<lparr> window := win \<rparr>))
          else (Inr (), w1))"

definition ProxySandbox_inactive ::
  "env \<Rightarrow> proxy_sandbox \<Rightarrow> world \<Rightarrow> unit outcome \<times> world \<times> proxy_sandbox" where
  "ProxySandbox_inactive ev s w =
     (let w1 = w\<lparr> activeSandboxCount := activeSandboxCount w - 1 \<rparr> in
      case (if activeSandboxCount w1 = 0
            then forEach (delete_whitelisted s) (variableWhiteList ev) w1
            else (Inr (), w1)) of
        (Inl e, w2) \<Rightarrow> (Inl e, w2, s)
      | (Inr _, w2) \<Rightarrow> (Inr (), w2, s\<lparr> sandboxRunning := False \<rparr>))"

section \<open>SingularProxySandbox (legacy)\<close>





















text \<open>
  Two conditions under which the traps stay within the code of the repository. The
  method that \<^verbatim>\<open>o.hasOwnProperty\<close> yields is the built-in one; and an object that
  does not own a key takes an assignment to it by creating the property: it is
  extensible and inherits the key, if at all, as a writable data property.
\<close>

definition builtin_hasOwnProperty :: "jsobject \<Rightarrow> bool" where
  "builtin_hasOwnProperty obj \<longleftrightarrow> js_get obj (StrKey ''hasOwnProperty'') = ObjectHasOwnProperty"

definition accepts_new_key :: "jsobject \<Rightarrow> pkey \<Rightarrow> bool" where
  "accepts_new_key obj p \<longleftrightarrow>
     extensible obj \<and> (case inherited obj p of None \<Rightarrow> True | Some d \<Rightarrow> desc_writable d)"

section \<open>The sandbox container (\<^verbatim>\<open>sandbox/index.ts\<close>)\<close>

text \<open>
  A \<^verbatim>\<open>Freer\<close> is a closure \<^verbatim>\<open>() => Rebuilder\<close> and a \<^verbatim>\<open>Rebuilder\<close> a closure
  \<^verbatim>\<open>() => any\<close>; both act on the state of the page, of type \<open>'st\<close> here. The
  sandbox of the container is given by its \<^verbatim>\<open>active\<close> and \<^verbatim>\<open>inactive\<close> methods, and
  \<^verbatim>\<open>patchAtMounting\<close> (of \<^verbatim>\<open>sandbox/patchers\<close>) by a function that installs the
  mount-phase patches and returns their freers.
\<close>

datatype 'st rebuilder = Rebuilder "'st \<Rightarrow> 'st"

datatype 'st freer = Freer "'st \<Rightarrow> 'st rebuilder \<times> 'st"

fun call_rebuilder :: "'st rebuilder \<Rightarrow> 'st \<Rightarrow> 'st" where
  "call_rebuilder (Rebuilder f) st = f st"

fun call_freer :: "'st freer \<Rightarrow> 'st \<Rightarrow> 'st rebuilder \<times> 'st" where
  "call_freer (Freer f) st = f st"

text \<open>\<^verbatim>\<open>freers.map((free) => free())\<close>: the freers are called from left to right.\<close>

fun map_free :: "'st freer list \<Rightarrow> 'st \<Rightarrow> 'st rebuilder list \<times> 'st" where
  "map_free [] st = ([], st)"
| "map_free (f # fs) st =
     (case call_freer f st of
        (r, st1) \<Rightarrow> (case map_free fs st1 of (rs, st2) \<Rightarrow> (r # rs, st2)))"

text \<open>\<^verbatim>\<open>rebuilders.forEach((rebuild) => rebuild())\<close>\<close>

fun forEach_rebuild :: "'st rebuilder list \<Rightarrow> 'st \<Rightarrow> 'st" where
  "forEach_rebuild [] st = st"
| "forEach_rebuild (r # rs) st = forEach_rebuild rs (call_rebuilder r st)"

record 'st sandbox_container =
  bootstrappingFreers :: "'st freer list"
  mountingFreers :: "'st freer list"
  sideEffectsRebuilders :: "'st rebuilder list"

definition mount ::
  "('st \<Rightarrow> 'st) \<Rightarrow> ('st \<Rightarrow> 'st freer list \<times> 'st) \<Rightarrow>
   'st sandbox_container \<Rightarrow> 'st \<Rightarrow> 'st sandbox_container \<times> 'st" where
  "mount sandbox_active patchAtMounting c st =
     (let st1 = sandbox_active st;
          sideEffectsRebuildersAtBootstrapping =
            take (length (bootstrappingFreers c)) (sideEffectsRebuilders c);
          sideEffectsRebuildersAtMounting =
            drop (length (bootstrappingFreers c)) (sideEffectsRebuilders c);
          st2 = (if length sideEffectsRebuildersAtBootstrapping \<noteq> 0
                 then forEach_rebuild sideEffectsRebuildersAtBootstrapping st1 else st1)
      in case patchAtMounting st2 of
           (freers, st3) \<Rightarrow>
             (let st4 = (if length sideEffectsRebuildersAtMounting \<noteq> 0
                         then forEach_rebuild sideEffectsRebuildersAtMounting st3 else st3)
              in (c\<lparr> mountingFreers := freers, sideEffectsRebuilders := [] \<rparr>, st4)))"

definition unmount ::
  "('st \<Rightarrow> 'st) \<Rightarrow> 'st sandbox_container \<Rightarrow> 'st \<Rightarrow> 'st sandbox_container \<times> 'st" where
  "unmount sandbox_inactive c st =
     (case map_free (bootstrappingFreers c @ mountingFreers c) st of
        (rebuilders, st1) \<Rightarrow>
          (c\<lparr> sideEffectsRebuilders := rebuilders \<rparr>, sandbox_inactive st1))"

text \<open>
  To observe the order of the calls, the state can be the list of the calls made so
  far: freer \<open>k\<close> records that it ran and returns rebuilder \<open>k\<close>, which records
  that it ran.
\<close>

datatype call = SandboxActive | SandboxInactive | PatchAtMounting | Free nat | Rebuild nat

definition recording_rebuilder :: "nat \<Rightarrow> call list rebuilder" where
  "recording_rebuilder k = Rebuilder (\<lambda>calls. calls @ [Rebuild k])"

definition recording_freer :: "nat \<Rightarrow> call list freer" where
  "recording_freer k = Freer (\<lambda>calls. (recording_rebuilder k, calls @ [Free k]))"

definition recording_active :: "call list \<Rightarrow> call list" where
  "recording_active calls = calls @ [SandboxActive]"

definition recording_inactive :: "call list \<Rightarrow> call list" where
  "recording_inactive calls = calls @ [SandboxInactive]"

definition recording_patchAtMounting :: "nat list \<Rightarrow> call list \<Rightarrow> call list freer list \<times> call list" where
  "recording_patchAtMounting ks calls = (map recording_freer ks, calls @ [PatchAtMounting])"

section \<open>Elements of the document\<close>

text \<open>
  An element is its identity and the list of its children. \<^verbatim>\<open>a.contains(b)\<close> holds
  when \<open>b\<close> is \<open>a\<close> or a descendant of \<open>a\<close>, and \<^verbatim>\<open>a.contains(null)\<close> is false;
  \<^verbatim>\<open>appendChild\<close> adds a last child.
\<close>

datatype element = Element nat "element list"

fun element_id :: "element \<Rightarrow> nat" where
  "element_id (Element i cs) = i"

fun children :: "element \<Rightarrow> element list" where
  "children (Element i cs) = cs"

fun has_node :: "element \<Rightarrow> nat \<Rightarrow> bool" where
  "has_node (Element i cs) x \<longleftrightarrow> i = x \<or> (\<exists>c \<in> set cs. has_node c x)"

definition contains :: "element \<Rightarrow> element option \<Rightarrow> bool" where
  "contains a b = (case b of None \<Rightarrow> False | Some e \<Rightarrow> has_node a (element_id e))"

fun appendChild :: "element \<Rightarrow> element \<Rightarrow> element" where
  "appendChild (Element i cs) child = Element i (cs @ [child])"

section \<open>The dynamic-append patch of the strict sandbox (\<^verbatim>\<open>forStrictSandbox.ts\<close>)\<close>

text \<open>
  The state of the module and of the prototypes it overwrites.
  \<open>createElementPatched\<close> says that \<^verbatim>\<open>Document.prototype.createElement\<close> is not
  \<^verbatim>\<open>rawDocumentCreateElement\<close>; \<open>createElementInstallations\<close> counts the assignments
  of an intercepting function to it. The two \<open>dynamicAppend\<close> fields do the same for
  the head and body methods. A \<^verbatim>\<open>ContainerConfig\<close> is kept per facade; its two
  closures (\<^verbatim>\<open>appWrapperGetter\<close>, \<^verbatim>\<open>excludeAssetFilter\<close>) are not part of the record:
  the wrapper element is an argument of \<open>rebuild\<close> below.
\<close>

record containerConfig =
  appName :: string
  configProxy :: jsval
  dynamicStyleSheetElements :: "element list"
  strictGlobal :: bool
  configScopedCSS :: bool

record patch_state =
  createElementPatched :: bool
  createElementInstallations :: nat
  dynamicAppendPatched :: bool
  dynamicAppendInstallations :: nat
  bootstrappingPatchCount :: int
  mountingPatchCount :: int
  proxyAttachContainerConfigMap :: "jsval \<rightharpoonup> containerConfig"

definition patchDocumentCreateElement :: "patch_state \<Rightarrow> patch_state" where
  "patchDocumentCreateElement st =
     (if \<not> createElementPatched st
      then st\<lparr> createElementPatched := True,
               createElementInstallations := Suc (createElementInstallations st) \<rparr>
      else st)"

definition unpatchDocumentCreate :: "patch_state \<Rightarrow> patch_state" where
  "unpatchDocumentCreate st = st\<lparr> createElementPatched := False \<rparr>"

text \<open>
  Modelled from the spec: \<^verbatim>\<open>patchHTMLDynamicAppendPrototypeFunctions\<close> of
  \<^verbatim>\<open>dynamicAppend/common\<close> is not among the sources. The spec (4.4) says that the
  underlying interception is installed once, and that the freer restores the original
  behaviour; so the patch installs the head and body methods unless they are installed,
  and the function it returns puts the original methods back.
\<close>

definition patchHTMLDynamicAppendPrototypeFunctions :: "patch_state \<Rightarrow> patch_state" where
  "patchHTMLDynamicAppendPrototypeFunctions st =
     (if \<not> dynamicAppendPatched st
      then st\<lparr> dynamicAppendPatched := True,
               dynamicAppendInstallations := Suc (dynamicAppendInstallations st) \<rparr>
      else st)"

definition unpatchDynamicAppendPrototypeFunctions :: "patch_state \<Rightarrow> patch_state" where
  "unpatchDynamicAppendPrototypeFunctions st = st\<lparr> dynamicAppendPatched := False \<rparr>"

text \<open>
  The freer that \<^verbatim>\<open>patchStrictSandbox\<close> returns closes over \<^verbatim>\<open>mounting\<close> and over the
  array \<^verbatim>\<open>dynamicStyleSheetElements\<close> of the facade's config; the rebuilder closes over
  that array. The array is the one stored under the facade in
  \<^verbatim>\<open>proxyAttachContainerConfigMap\<close>, so the closures hold the facade.
  \<^verbatim>\<open>recordStyledComponentsCSSRules\<close> (of \<^verbatim>\<open>dynamicAppend/common\<close>), which the freer
  calls before it returns, saves the CSS rules of the recorded style elements in a
  table of its own and touches none of this state; it is left out.
\<close>

datatype strict_freer = StrictFreer bool jsval

datatype strict_rebuilder = StrictRebuilder jsval

definition patchStrictSandbox ::
  "string \<Rightarrow> jsval \<Rightarrow> bool \<Rightarrow> bool \<Rightarrow> patch_state \<Rightarrow> strict_freer \<times> patch_state" where
  "patchStrictSandbox nm prx mounting scopedCSS st =
     (let st1 = (case proxyAttachContainerConfigMap st prx of
                   Some _ \<Rightarrow> st
                 | None \<Rightarrow>
                     st\<lparr> proxyAttachContainerConfigMap :=
                           (proxyAttachContainerConfigMap st)(prx \<mapsto>
                              \<lparr> appName = nm, configProxy = prx,
                                dynamicStyleSheetElements = [],
                                strictGlobal = True,
                                configScopedCSS = scopedCSS \<rparr>) \<rparr>);
          st2 = patchDocumentCreateElement st1;
          st3 = patchHTMLDynamicAppendPrototypeFunctions st2;
          st4 = (if \<not> mounting
                 then st3\<lparr> bootstrappingPatchCount := bootstrappingPatchCount st3 + 1 \<rparr>
                 else st3);
          st5 = (if mounting
                 then st4\<lparr> mountingPatchCount := mountingPatchCount st4 + 1 \<rparr>
                 else st4)
      in (StrictFreer mounting prx, st5))"

fun free :: "strict_freer \<Rightarrow> patch_state \<Rightarrow> strict_rebuilder \<times> patch_state" where
  "free (StrictFreer mounting prx) st =
     (let st1 = (if \<not> mounting \<and> bootstrappingPatchCount st \<noteq> 0
                 then st\<lparr> bootstrappingPatchCount := bootstrappingPatchCount st - 1 \<rparr>
                 else st);
          st2 = (if mounting
                 then st1\<lparr> mountingPatchCount := mountingPatchCount st1 - 1 \<rparr>
                 else st1);
          allMicroAppUnmounted = (mountingPatchCount st2 = 0 \<and> bootstrappingPatchCount st2 = 0);
          st3 = (if allMicroAppUnmounted
                 then unpatchDocumentCreate (unpatchDynamicAppendPrototypeFunctions st2)
                 else st2)
      in (StrictRebuilder prx, st3))"

text \<open>
  Modelled from the spec: \<^verbatim>\<open>rebuildCSSRules\<close> of \<^verbatim>\<open>dynamicAppend/common\<close> is not among
  the sources. The spec (4.4) says that the rebuilder re-attaches the recorded
  style/link elements that are no longer under the mounting element; so it calls the
  re-append callback of \<open>rebuild\<close> on every recorded element, in order.
\<close>

fun rebuildCSSRules :: "element list \<Rightarrow> (element \<Rightarrow> 'd \<Rightarrow> bool \<times> 'd) \<Rightarrow> 'd \<Rightarrow> 'd" where
  "rebuildCSSRules [] reAppendElement d = d"
| "rebuildCSSRules (e # es) reAppendElement d =
     rebuildCSSRules es reAppendElement (snd (reAppendElement e d))"

text \<open>The callback of \<^verbatim>\<open>rebuild\<close>, on the wrapper that \<^verbatim>\<open>appWrapperGetter()\<close> returns.\<close>

definition reAppendElement :: "element \<Rightarrow> element \<Rightarrow> bool \<times> element" where
  "reAppendElement stylesheetElement appWrapper =
     (if \<not> contains appWrapper (Some stylesheetElement)
      then (True, appendChild appWrapper stylesheetElement)
      else (False, appWrapper))"

definition recorded_elements :: "patch_state \<Rightarrow> jsval \<Rightarrow> element list" where
  "recorded_elements st prx =
     (case proxyAttachContainerConfigMap st prx of
        None \<Rightarrow> []
      | Some cfg \<Rightarrow> dynamicStyleSheetElements cfg)"

fun rebuild :: "strict_rebuilder \<Rightarrow> patch_state \<Rightarrow> element \<Rightarrow> element" where
  "rebuild (StrictRebuilder prx) st appWrapper =
     rebuildCSSRules (recorded_elements st prx) reAppendElement appWrapper"

text \<open>Any number of applications calling \<^verbatim>\<open>patchStrictSandbox\<close>, one after the other:
  each call is (appName, proxy, mounting, scopedCSS).\<close>

fun patch_all :: "(string \<times> jsval \<times> bool \<times> bool) list \<Rightarrow> patch_state \<Rightarrow> patch_state" where
  "patch_all [] st = st"
| "patch_all ((nm, prx, mounting, scopedCSS) # calls) st =
     patch_all calls (snd (patchStrictSandbox nm prx mounting scopedCSS st))"

text \<open>
  The freers that the calls of \<^verbatim>\<open>patchStrictSandbox\<close> return, in the order of the
  calls; freers called one after the other; and the number of calls, and of freers,
  of each phase.
\<close>

fun patch_freers :: "(string \<times> jsval \<times> bool \<times> bool) list \<Rightarrow> patch_state \<Rightarrow> strict_freer list" where
  "patch_freers [] st = []"
| "patch_freers ((nm, prx, mounting, scopedCSS) # calls) st =
     fst (patchStrictSandbox nm prx mounting scopedCSS st) #
     patch_freers calls (snd (patchStrictSandbox nm prx mounting scopedCSS st))"

fun free_all :: "strict_freer list \<Rightarrow> patch_state \<Rightarrow> patch_state" where
  "free_all [] st = st"
| "free_all (fr # frs) st = free_all frs (snd (free fr st))"

fun is_mounting :: "strict_freer \<Rightarrow> bool" where
  "is_mounting (StrictFreer mounting prx) = mounting"

definition mounting_calls :: "(string \<times> jsval \<times> bool \<times> bool) list \<Rightarrow> nat" where
  "mounting_calls calls = length (filter (\<lambda>(nm, prx, mounting, scopedCSS). mounting) calls)"

definition bootstrapping_calls :: "(string \<times> jsval \<times> bool \<times> bool) list \<Rightarrow> nat" where
  "bootstrapping_calls calls = length (filter (\<lambda>(nm, prx, mounting, scopedCSS). \<not> mounting) calls)"

section \<open>Rendering and the wrapper getter of the loader\<close>

definition assertElementExist :: "'a option \<Rightarrow> string option \<Rightarrow> unit outcome" where
  "assertElementExist element msg =
     (case element of
        Some _ \<Rightarrow> Inr ()
      | None \<Rightarrow>
          (case msg of
             Some m \<Rightarrow>
               if m \<noteq> [] then Inl (QiankunError m)
               else Inl (QiankunError ''element not existed!'')
           | None \<Rightarrow> Inl (QiankunError ''element not existed!'')))"

datatype phase = Loading | Mounting | Mounted | Unmounted

fun phase_name :: "phase \<Rightarrow> string" where
  "phase_name Loading = ''loading''"
| "phase_name Mounting = ''mounting''"
| "phase_name Mounted = ''mounted''"
| "phase_name Unmounted = ''unmounted''"

text \<open>A container is given by a selector string or is \<^verbatim>\<open>undefined\<close>; the template
  literal \<^verbatim>\<open>${container}\<close> prints it.\<close>

fun container_text :: "string option \<Rightarrow> string" where
  "container_text None = ''undefined''"
| "container_text (Some sel) = sel"

fun render_errorMsg :: "string option \<Rightarrow> string \<Rightarrow> phase \<Rightarrow> string" where
  "render_errorMsg container nm Loading =
     ''Target container with '' @ container_text container @ '' not existed while '' @ nm @ '' '' @ phase_name Loading @ ''!''"
| "render_errorMsg container nm Mounting =
     ''Target container with '' @ container_text container @ '' not existed while '' @ nm @ '' '' @ phase_name Mounting @ ''!''"
| "render_errorMsg container nm Mounted =
     ''Target container with '' @ container_text container @ '' not existed after '' @ nm @ '' '' @ phase_name Mounted @ ''!''"
| "render_errorMsg container nm Unmounted =
     ''Target container with '' @ container_text container @ '' not existed while '' @ nm @ '' rendering!''"

text \<open>
  What a call of \<^verbatim>\<open>render\<close> does to the page: it hands over to the legacy render
  function (with \<^verbatim>\<open>loading\<close> and the content), or it leaves the container with new
  children, or it touches nothing.
\<close>

datatype render_effect =
    LegacyRenderCalled bool string
  | ContainerBecomes element
  | NothingRendered

text \<open>
  The function that \<^verbatim>\<open>getRender(appName, appContent, legacyRender)\<close> returns.
  \<^verbatim>\<open>getContainer\<close> (of \<^verbatim>\<open>utils\<close>) is a parameter; \<open>legacyRender\<close> says whether a
  legacy render function was given.
\<close>

definition render ::
  "string \<Rightarrow> string \<Rightarrow> bool \<Rightarrow> (string option \<Rightarrow> element option) \<Rightarrow>
   element option \<Rightarrow> bool \<Rightarrow> string option \<Rightarrow> phase \<Rightarrow> unit outcome \<times> render_effect" where
  "render nm appContent legacyRender getContainer element loading container ph =
     (if legacyRender
      then (Inr (), LegacyRenderCalled loading (if element \<noteq> None then appContent else []))
      else
        (let containerElement = getContainer container in
         case (if ph \<noteq> Unmounted
               then assertElementExist containerElement (Some (render_errorMsg container nm ph))
               else Inr ()) of
           Inl e \<Rightarrow> (Inl e, NothingRendered)
         | Inr _ \<Rightarrow>
             (case containerElement of
                None \<Rightarrow> (Inr (), NothingRendered)
              | Some ce \<Rightarrow>
                  if \<not> contains ce element
                  then (Inr (),
                        ContainerBecomes
                          (case element of
                             None \<Rightarrow> Element (element_id ce) []
                           | Some el \<Rightarrow> appendChild (Element (element_id ce) []) el))
                  else (Inr (), NothingRendered))))"

text \<open>
  The getter that \<^verbatim>\<open>getAppWrapperGetter\<close> returns, applied to the document it is
  called in (the last argument, \<^verbatim>\<open>document.getElementById\<close>). Besides what the getter
  returns or throws, the result lists the element lookups it made. \<^verbatim>\<open>getWrapperId\<close>
  (of \<^verbatim>\<open>utils\<close>) and the module constant \<^verbatim>\<open>supportShadowDOM\<close> are parameters.
  The non-null assertions \<^verbatim>\<open>appWrapper!\<close> and \<^verbatim>\<open>element!\<close> check nothing when the code
  runs: a null value is returned as it is, and reading \<^verbatim>\<open>shadowRoot\<close> of it throws.
\<close>

datatype lookup = GetElementById string | ElementGetter

datatype wrapper = WrapperElement element | ShadowRootOf element | NullWrapper

definition wrapper_missing_msg :: "string \<Rightarrow> string \<Rightarrow> string" where
  "wrapper_missing_msg nm appInstanceId =
     ''Wrapper element for '' @ nm @ '' with instance '' @ appInstanceId @ '' is not existed!''"

definition getAppWrapperGetter ::
  "(string \<Rightarrow> string) \<Rightarrow> bool \<Rightarrow> string \<Rightarrow> string \<Rightarrow> bool \<Rightarrow> bool \<Rightarrow> bool \<Rightarrow>
   (unit \<Rightarrow> element option) \<Rightarrow> (string \<Rightarrow> element option) \<Rightarrow> wrapper outcome \<times> lookup list" where
  "getAppWrapperGetter getWrapperId supportShadowDOM nm appInstanceId
     useLegacyRender strictStyleIsolation scopedCSS elementGetter getElementById =
     (if useLegacyRender then
        (if strictStyleIsolation
         then (Inl (QiankunError ''strictStyleIsolation can not be used with legacy render!''), [])
         else if scopedCSS
         then (Inl (QiankunError ''experimentalStyleIsolation can not be used with legacy render!''), [])
         else
           (let appWrapper = getElementById (getWrapperId appInstanceId);
                lookups = [GetElementById (getWrapperId appInstanceId)]
            in case assertElementExist appWrapper (Some (wrapper_missing_msg nm appInstanceId)) of
                 Inl e \<Rightarrow> (Inl e, lookups)
               | Inr _ \<Rightarrow>
                   (case appWrapper of
                      None \<Rightarrow> (Inr NullWrapper, lookups)
                    | Some el \<Rightarrow> (Inr (WrapperElement el), lookups))))
      else
        (let element = elementGetter ();
             lookups = [ElementGetter]
         in case assertElementExist element (Some (wrapper_missing_msg nm appInstanceId)) of
              Inl e \<Rightarrow> (Inl e, lookups)
            | Inr _ \<Rightarrow>
                (if strictStyleIsolation \<and> supportShadowDOM
                 then (case element of
                         None \<Rightarrow> (Inl TypeError, lookups)
                       | Some el \<Rightarrow> (Inr (ShadowRootOf el), lookups))
                 else (case element of
                         None \<Rightarrow> (Inr NullWrapper, lookups)
                       | Some el \<Rightarrow> (Inr (WrapperElement el), lookups)))))"

text \<open>
  The part of \<^verbatim>\<open>loadApp\<close> that sets the wrapper up, between the creation of the
  wrapper element (\<^verbatim>\<open>createElement\<close>, whose result is the argument
  \<open>initialAppWrapperElement\<close>) and the creation of the sandbox: the first
  \<^verbatim>\<open>render\<close>, in the loading phase, and the creation of the wrapper getter. It throws
  what \<^verbatim>\<open>render\<close> throws; otherwise it yields what \<^verbatim>\<open>render\<close> did and the getter.
\<close>

definition loadApp_wrapperSetup ::
  "(string \<Rightarrow> string) \<Rightarrow> bool \<Rightarrow> (string option \<Rightarrow> element option) \<Rightarrow>
   string \<Rightarrow> string \<Rightarrow> string \<Rightarrow> bool \<Rightarrow> bool \<Rightarrow> bool \<Rightarrow> element \<Rightarrow> string option \<Rightarrow>
   js_error + (render_effect \<times> ((string \<Rightarrow> element option) \<Rightarrow> wrapper outcome \<times> lookup list))" where
  "loadApp_wrapperSetup getWrapperId supportShadowDOM getContainer
     nm appInstanceId appContent legacyRender strictStyleIsolation scopedCSS
     initialAppWrapperElement initialContainer =
     (case render nm appContent legacyRender getContainer
             (Some initialAppWrapperElement) True initialContainer Loading of
        (Inl e, _) \<Rightarrow> Inl e
      | (Inr _, effect) \<Rightarrow>
          Inr (effect,
               getAppWrapperGetter getWrapperId supportShadowDOM nm appInstanceId
                 legacyRender strictStyleIsolation scopedCSS
                 (\<lambda>_. Some initialAppWrapperElement)))"

section \<open>Example states\<close>

text \<open>
  A production build. \<^verbatim>\<open>Object.prototype\<close> with its built-in \<^verbatim>\<open>hasOwnProperty\<close>,
  \<^verbatim>\<open>constructor\<close> and \<^verbatim>\<open>toString\<close> and the accessor \<^verbatim>\<open>__proto__\<close>. A host page
  whose window has the non-configurable accessors \<^verbatim>\<open>window\<close>, \<^verbatim>\<open>top\<close> and
  \<^verbatim>\<open>document\<close>, the configurable \<^verbatim>\<open>parent\<close> and \<^verbatim>\<open>globalThis\<close>, the event handler
  \<^verbatim>\<open>onclick\<close> (its setter keeps an object and turns anything else into \<^verbatim>\<open>null\<close>), a
  writable global \<^verbatim>\<open>title\<close>, a read-only but configurable global \<^verbatim>\<open>version\<close>, and a
  writable but non-configurable global \<^verbatim>\<open>build\<close>; it inherits what
  \<^verbatim>\<open>Object.prototype\<close> has, but a \<^verbatim>\<open>constructor\<close> of its own prototype. The page is a top-level frame: \<^verbatim>\<open>window.parent\<close> is the
  window. Sandbox \<open>A\<close> is created first, then sandbox \<open>B\<close>.
\<close>

definition prod_env :: env where
  "prod_env = \<lparr> nodeEnv = Production, qiankunDevelopment = False \<rparr>"

definition object_prototype :: "pkey \<rightharpoonup> property" where
  "object_prototype =
     [StrKey ''hasOwnProperty'' \<mapsto> DataProp ObjectHasOwnProperty True False True,
      StrKey ''constructor'' \<mapsto> DataProp (FunRef 0) True False True,
      StrKey ''toString'' \<mapsto> DataProp (FunRef 1) True False True,
      StrKey ''__proto__'' \<mapsto> AccessorProp (ObjRef 0) ForeignSetter False True]"

fun handler_value :: "jsval \<Rightarrow> jsval" where
  "handler_value Undefined = Null"
| "handler_value Null = Null"
| "handler_value (JBool b) = Null"
| "handler_value (JNum n) = Null"
| "handler_value (JStr s) = Null"
| "handler_value v = v"

definition host_window :: jsobject where
  "host_window =
     \<lparr> own =
         [StrKey ''window'' \<mapsto> AccessorProp WindowRef NoSetter True False,
          StrKey ''top'' \<mapsto> AccessorProp WindowRef NoSetter True False,
          StrKey ''parent'' \<mapsto> AccessorProp WindowRef ReplacingSetter True True,
          StrKey ''document'' \<mapsto> AccessorProp (ObjRef 1) NoSetter True False,
          StrKey ''globalThis'' \<mapsto> DataProp WindowRef True False True,
          StrKey ''onclick'' \<mapsto> AccessorProp Null (StoringSetter handler_value) True True,
          StrKey ''title'' \<mapsto> DataProp (JStr ''host'') True True True,
          StrKey ''version'' \<mapsto> DataProp (JNum 7) False True True,
          StrKey ''build'' \<mapsto> DataProp (JNum 42) True True False],
       inherited = object_prototype(StrKey ''constructor'' \<mapsto> DataProp (FunRef 2) True False True),
       extensible = True \<rparr>"

definition host_world :: world where
  "host_world = \<lparr> window = host_window, objectPrototype = object_prototype,
                   activeSandboxCount = 0,
                   currentRunningSandboxProxy = None, nextProxyId = 0 \<rparr>"

definition sandbox_A :: proxy_sandbox where
  "sandbox_A = fst (new_ProxySandbox prod_env ''A'' host_world)"

definition world_A :: world where
  "world_A = snd (new_ProxySandbox prod_env ''A'' host_world)"

definition sandbox_B :: proxy_sandbox where
  "sandbox_B = fst (new_ProxySandbox prod_env ''B'' world_A)"

definition world_AB :: world where
  "world_AB = snd (new_ProxySandbox prod_env ''B'' world_A)"

text \<open>Sandbox \<open>A\<close> after its \<^verbatim>\<open>inactive()\<close>, and after a write of the key
  \<^verbatim>\<open>hasOwnProperty\<close> through its facade.\<close>

definition sandbox_A_inactive :: proxy_sandbox where
  "sandbox_A_inactive = snd (snd (ProxySandbox_inactive prod_env sandbox_A world_AB))"

definition world_A_inactive :: world where
  "world_A_inactive = fst (snd (ProxySandbox_inactive prod_env sandbox_A world_AB))"

definition sandbox_A_shadowed :: proxy_sandbox where
  "sandbox_A_shadowed =
     snd (snd (set_trap prod_env sandbox_A world_AB (StrKey ''hasOwnProperty'') (JNum 1)))"











text \<open>A container with two bootstrap freers and one mount freer, all recording.\<close>

definition example_container :: "call list sandbox_container" where
  "example_container = \<lparr> bootstrappingFreers = map recording_freer [1, 2],
                          mountingFreers = map recording_freer [3],
                          sideEffectsRebuilders = [] \<rparr>"

text \<open>
  The patch state when the module is loaded; two applications patching, the first at
  bootstrap and the second at mount; and the state after the second application has
  had two style elements recorded. The wrapper of that application holds the first of
  the two.
\<close>

definition initial_patch_state :: patch_state where
  "initial_patch_state =
     \<lparr> createElementPatched = False, createElementInstallations = 0,
       dynamicAppendPatched = False, dynamicAppendInstallations = 0,
       bootstrappingPatchCount = 0, mountingPatchCount = 0,
       proxyAttachContainerConfigMap = Map.empty \<rparr>"

definition two_patch_calls :: "(string \<times> jsval \<times> bool \<times> bool) list" where
  "two_patch_calls = [(''app1'', ProxyRef 0, False, False), (''app2'', ProxyRef 1, True, False)]"

definition styles_recorded :: patch_state where
  "styles_recorded =
     (patch_all two_patch_calls initial_patch_state)
       \<lparr> proxyAttachContainerConfigMap :=
           (proxyAttachContainerConfigMap (patch_all two_patch_calls initial_patch_state))
             (ProxyRef 1 \<mapsto>
                \<lparr> appName = ''app2'', configProxy = ProxyRef 1,
                  dynamicStyleSheetElements = [Element 11 [], Element 12 []],
                  strictGlobal = True, configScopedCSS = False \<rparr>) \<rparr>"

definition example_wrapper :: element where
  "example_wrapper = Element 10 [Element 11 []]"

section \<open>Facts about the example states\<close>

lemmas example_defs = prod_env_def host_window_def host_world_def sandbox_A_def world_A_def
  sandbox_B_def world_AB_def new_ProxySandbox_def createFakeWindow_def escape_key_def
  object_prototype_def

lemma prod_env_whitelist:
  "set (variableWhiteList prod_env) = {StrKey ''System'', StrKey ''__cjsWrapper''}"
  by (auto simp: variableWhiteList_def variableWhiteListInDev_def prod_env_def)

lemma sandbox_A_running: "sandboxRunning sandbox_A"
  by (simp add: example_defs)

lemma sandbox_A_builtin: "builtin_hasOwnProperty (fakeWindow sandbox_A)"
  by (simp add: example_defs builtin_hasOwnProperty_def js_get_def)

lemma world_AB_builtin: "builtin_hasOwnProperty (window world_AB)"
  by (simp add: example_defs builtin_hasOwnProperty_def js_get_def)

lemma world_AB_window: "window world_AB = host_window"
  by (simp add: example_defs)

lemma sandbox_A_inactive_state:
  "ProxySandbox_inactive prod_env sandbox_A world_AB =
     (Inr (), world_AB\<lparr> activeSandboxCount := 1 \<rparr>, sandbox_A\<lparr> sandboxRunning := False \<rparr>)"
  by (simp add: ProxySandbox_inactive_def Let_def example_defs)

lemma sandbox_A_inactive_eq:
  "sandbox_A_inactive = sandbox_A\<lparr> sandboxRunning := False \<rparr>"
  "world_A_inactive = world_AB\<lparr> activeSandboxCount := 1 \<rparr>"
  by (simp_all add: sandbox_A_inactive_def world_A_inactive_def sandbox_A_inactive_state)

section \<open>ProxySandbox: isolation of writes\<close>

lemma set_trap_window_frame:
  "p \<notin> set (variableWhiteList ev) \<Longrightarrow> fst (snd (set_trap ev s w p v)) = w"
  by (auto simp: set_trap_def Let_def split: sum.splits option.splits)

lemma facade_set_world: "fst (snd (facade_set ev s w p v)) = fst (snd (set_trap ev s w p v))"
  by (auto simp: facade_set_def split: prod.splits sum.splits)

lemma get_trap_plain:
  "\<not> intercepted_key ev p \<Longrightarrow> \<not> js_in (fakeWindow b) p \<Longrightarrow>
   fst (get_trap ev gtv b w p) =
     (if p = StrKey ''document'' \<or> p = StrKey ''eval'' then js_get (window w) p
      else gtv (js_get (window w) p))"
  by (auto simp: get_trap_def intercepted_key_def Let_def)

text \<open>
  C1, as stated, fails: the claim lets \<open>p\<close> be any key outside the allow-list, but
  the \<^verbatim>\<open>get\<close> trap answers some keys itself, and the overlay inherits others.
  Sandbox \<open>A\<close> sets \<^verbatim>\<open>globalThis\<close> to 1 (the set returns true and the shared state
  is as before); the overlay of sandbox \<open>B\<close> neither has nor inherits
  \<^verbatim>\<open>globalThis\<close>; the shared window's value of \<^verbatim>\<open>globalThis\<close> is the window; yet
  reading \<^verbatim>\<open>globalThis\<close> through \<open>B\<close> returns the facade of \<open>B\<close>. And the overlay
  of \<open>B\<close> does not own \<^verbatim>\<open>constructor\<close>, but it is the object literal \<^verbatim>\<open>{}\<close> and
  inherits one from \<^verbatim>\<open>Object.prototype\<close>: reading \<^verbatim>\<open>constructor\<close> through \<open>B\<close>
  returns that, not the shared window's.
\<close>

theorem proxy_isolation_counterexample:
  "StrKey ''globalThis'' \<notin> set (variableWhiteList prod_env) \<and>
   sandboxRunning sandbox_A \<and>
   \<not> js_in (fakeWindow sandbox_B) (StrKey ''globalThis'') \<and>
   fst (facade_set prod_env sandbox_A world_AB (StrKey ''globalThis'') (JNum 1)) = Inr True \<and>
   fst (snd (facade_set prod_env sandbox_A world_AB (StrKey ''globalThis'') (JNum 1))) = world_AB \<and>
   js_get (window world_AB) (StrKey ''globalThis'') = WindowRef \<and>
   fst (get_trap prod_env id sandbox_B
          (fst (snd (facade_set prod_env sandbox_A world_AB (StrKey ''globalThis'') (JNum 1))))
          (StrKey ''globalThis'')) = ProxyRef 1 \<and>
   StrKey ''constructor'' \<notin> set (variableWhiteList prod_env) \<and>
   own (fakeWindow sandbox_B) (StrKey ''constructor'') = None \<and>
   js_get (window world_AB) (StrKey ''constructor'') = FunRef 2 \<and>
   fst (get_trap prod_env id sandbox_B world_AB (StrKey ''constructor'')) = FunRef 0"
proof -
  have wl: "StrKey ''globalThis'' \<notin> set (variableWhiteList prod_env)"
           "StrKey ''constructor'' \<notin> set (variableWhiteList prod_env)"
    by (simp_all add: prod_env_whitelist)
  have fr: "fst (snd (facade_set prod_env sandbox_A world_AB (StrKey ''globalThis'') (JNum 1))) = world_AB"
    using wl by (simp add: facade_set_world set_trap_window_frame)
  have ok: "fst (facade_set prod_env sandbox_A world_AB (StrKey ''globalThis'') (JNum 1)) = Inr True"
    using wl
    by (simp add: facade_set_def set_trap_def example_defs call_hasOwnProperty_def js_get_def
                  Object_defineProperty_def defineOwnProperty_def put_own_def
                  is_accessor_descriptor_def set_invariant_violated_def Let_def)
  have nb: "\<not> js_in (fakeWindow sandbox_B) (StrKey ''globalThis'')"
    by (simp add: example_defs js_in_def)
  have gw: "js_get (window world_AB) (StrKey ''globalThis'') = WindowRef"
    by (simp add: example_defs js_get_def)
  have rd: "fst (get_trap prod_env id sandbox_B world_AB (StrKey ''globalThis'')) = ProxyRef 1"
    by (simp add: example_defs get_trap_def symbol_unscopables_def Let_def)
  have co: "own (fakeWindow sandbox_B) (StrKey ''constructor'') = None"
           "js_get (window world_AB) (StrKey ''constructor'') = FunRef 2"
    by (simp_all add: example_defs js_get_def)
  have rc: "fst (get_trap prod_env id sandbox_B world_AB (StrKey ''constructor'')) = FunRef 0"
    by (simp add: example_defs get_trap_def symbol_unscopables_def js_get_def js_in_def Let_def)
  show ?thesis
    unfolding fr using wl sandbox_A_running nb ok gw rd co rc by (intro conjI) simp_all
qed

text \<open>
  C1, amended. For every key \<open>p\<close> outside the allow-list and every value \<open>v\<close>, a set
  of \<open>p\<close> to \<open>v\<close> through the facade of a sandbox \<open>a\<close> that does not call a function
  of the page (a setter, or a \<^verbatim>\<open>hasOwnProperty\<close> that is not the built-in one) leaves
  the shared state, and so the shared window, as it was. A read of \<open>p\<close> afterwards
  through the facade of any sandbox \<open>b\<close> whose overlay neither has nor inherits \<open>p\<close>
  (\<^verbatim>\<open>p in target\<close> is false; the overlay inherits the keys of \<^verbatim>\<open>Object.prototype\<close>)
  returns, when \<open>p\<close> is not one of the keys the \<^verbatim>\<open>get\<close> trap answers itself, the
  shared window's value of \<open>p\<close> (as it is for \<^verbatim>\<open>document\<close> and \<^verbatim>\<open>eval\<close>, passed
  through \<^verbatim>\<open>getTargetValue\<close> otherwise): a value in which \<open>v\<close> does not occur. (The
  overlay of \<open>b\<close> does not own \<open>p\<close>, so the \<^verbatim>\<open>Proxy\<close> holds nothing against what the
  \<^verbatim>\<open>get\<close> trap returns.)
\<close>

theorem proxy_isolation:
  assumes "p \<notin> set (variableWhiteList ev)"
      and "fst (facade_set ev a w p v) \<noteq> Inl ForeignCall"
  shows "fst (snd (facade_set ev a w p v)) = w \<and>
         (\<not> js_in (fakeWindow b) p \<and> \<not> intercepted_key ev p \<longrightarrow>
            fst (get_trap ev gtv b (fst (snd (facade_set ev a w p v))) p) =
              (if p = StrKey ''document'' \<or> p = StrKey ''eval'' then js_get (window w) p
               else gtv (js_get (window w) p)))"
proof -
  have fr: "fst (snd (facade_set ev a w p v)) = w"
    using assms(1) by (simp add: facade_set_world set_trap_window_frame)
  show ?thesis
    unfolding fr using get_trap_plain[of ev p b gtv w] by simp
qed

theorem proxy_isolation_witness:
  "StrKey ''foo'' \<notin> set (variableWhiteList prod_env) \<and>
   fst (facade_set prod_env sandbox_A world_AB (StrKey ''foo'') (JNum 1)) = Inr True \<and>
   \<not> js_in (fakeWindow sandbox_B) (StrKey ''foo'') \<and>
   \<not> intercepted_key prod_env (StrKey ''foo'') \<and>
   fst (snd (facade_set prod_env sandbox_A world_AB (StrKey ''foo'') (JNum 1))) = world_AB \<and>
   own (fakeWindow (snd (snd (facade_set prod_env sandbox_A world_AB (StrKey ''foo'') (JNum 1)))))
     (StrKey ''foo'') = Some (DataProp (JNum 1) True True True) \<and>
   own (window world_AB) (StrKey ''foo'') = None \<and>
   fst (get_trap prod_env id sandbox_B
          (fst (snd (facade_set prod_env sandbox_A world_AB (StrKey ''foo'') (JNum 1))))
          (StrKey ''foo'')) = Undefined"
proof -
  have wl: "StrKey ''foo'' \<notin> set (variableWhiteList prod_env)"
    by (simp add: prod_env_whitelist)
  have st: "set_trap prod_env sandbox_A world_AB (StrKey ''foo'') (JNum 1) =
              (Inr True, world_AB,
               sandbox_A\<lparr> fakeWindow := put_own (fakeWindow sandbox_A) (StrKey ''foo'')
                                            (DataProp (JNum 1) True True True),
                          updatedValueSet := {StrKey ''foo''},
                          latestSetProp := Some (StrKey ''foo'') \<rparr>)"
    using wl
    by (simp add: set_trap_def example_defs call_hasOwnProperty_def js_get_def js_assign_def
                  put_own_def Let_def)
  have ok: "fst (facade_set prod_env sandbox_A world_AB (StrKey ''foo'') (JNum 1)) = Inr True"
    by (simp add: facade_set_def st set_invariant_violated_def put_own_def)
  have ov: "own (fakeWindow (snd (snd (facade_set prod_env sandbox_A world_AB (StrKey ''foo'') (JNum 1)))))
              (StrKey ''foo'') = Some (DataProp (JNum 1) True True True)"
    by (simp add: facade_set_def st set_invariant_violated_def put_own_def)
  have nf: "fst (facade_set prod_env sandbox_A world_AB (StrKey ''foo'') (JNum 1)) \<noteq> Inl ForeignCall"
    using ok by simp
  have nb: "\<not> js_in (fakeWindow sandbox_B) (StrKey ''foo'')"
    by (simp add: example_defs js_in_def)
  have ni: "\<not> intercepted_key prod_env (StrKey ''foo'')"
    by (simp add: intercepted_key_def symbol_unscopables_def prod_env_def)
  have w0: "own (window world_AB) (StrKey ''foo'') = None"
           "js_get (window world_AB) (StrKey ''foo'') = Undefined"
    by (simp_all add: example_defs js_get_def)
  note iso = proxy_isolation[OF wl nf, of sandbox_B id]
  have fr: "fst (snd (facade_set prod_env sandbox_A world_AB (StrKey ''foo'') (JNum 1))) = world_AB"
    using iso by (rule conjunct1)
  have rd: "fst (get_trap prod_env id sandbox_B
                   (fst (snd (facade_set prod_env sandbox_A world_AB (StrKey ''foo'') (JNum 1))))
                   (StrKey ''foo'')) = Undefined"
    using conjunct2[OF iso] nb ni w0 by simp
  show ?thesis
    using wl ok nb ni fr ov w0(1) rd by (intro conjI)
qed

section \<open>ProxySandbox: writes to an inactive sandbox\<close>

text \<open>
  C2, as stated, fails: a set through the facade of an inactive sandbox can raise a
  \<^verbatim>\<open>TypeError\<close>. Sandbox \<open>A\<close> has been deactivated. Its overlay holds \<^verbatim>\<open>document\<close>,
  which \<^verbatim>\<open>createFakeWindow\<close> copied from the shared window as a non-configurable
  accessor without a setter. The \<^verbatim>\<open>set\<close> trap returns true for \<^verbatim>\<open>document\<close>, and the
  \<^verbatim>\<open>Proxy\<close> then checks the result against its target and throws.
\<close>

theorem set_trap_inactive_silent_drop_counterexample:
  "ProxySandbox_inactive prod_env sandbox_A world_AB = (Inr (), world_A_inactive, sandbox_A_inactive) \<and>
   \<not> sandboxRunning sandbox_A_inactive \<and>
   own (fakeWindow sandbox_A_inactive) (StrKey ''document'') =
     Some (AccessorProp (ObjRef 1) NoSetter True False) \<and>
   fst (set_trap prod_env sandbox_A_inactive world_A_inactive (StrKey ''document'') (JNum 3)) = Inr True \<and>
   fst (facade_set prod_env sandbox_A_inactive world_A_inactive (StrKey ''document'') (JNum 3)) =
     Inl TypeError"
proof -
  have a: "ProxySandbox_inactive prod_env sandbox_A world_AB =
             (Inr (), world_A_inactive, sandbox_A_inactive)"
    by (simp add: sandbox_A_inactive_eq sandbox_A_inactive_state)
  have b: "\<not> sandboxRunning sandbox_A_inactive"
    by (simp add: sandbox_A_inactive_eq)
  have c: "own (fakeWindow sandbox_A_inactive) (StrKey ''document'') =
             Some (AccessorProp (ObjRef 1) NoSetter True False)"
    by (simp add: sandbox_A_inactive_eq example_defs)
  have d: "fst (set_trap prod_env sandbox_A_inactive world_A_inactive (StrKey ''document'') (JNum 3)) =
             Inr True"
    using b by (simp add: set_trap_def)
  have e: "fst (facade_set prod_env sandbox_A_inactive world_A_inactive (StrKey ''document'') (JNum 3)) =
             Inl TypeError"
    using b c by (simp add: facade_set_def set_trap_def set_invariant_violated_def)
  show ?thesis using a b c d e by (intro conjI)
qed

text \<open>
  C2, amended. When the \<^verbatim>\<open>sandboxRunning\<close> flag of a ProxySandbox is false, the
  \<^verbatim>\<open>set\<close> trap of its facade returns true for every key and value, and it changes
  nothing: the overlay, the ownership set, the latest-set key (indeed the whole sandbox
  record) and the shared state, with the shared window, are as before. The set
  through the facade changes nothing either; it returns true, and raises no
  \<^verbatim>\<open>TypeError\<close>, unless the overlay holds the key as a non-configurable property that
  is a read-only data property with another value or an accessor without a setter:
  there the \<^verbatim>\<open>Proxy\<close> throws a \<^verbatim>\<open>TypeError\<close> after the trap has returned true.
\<close>

theorem set_trap_inactive_silent_drop:
  assumes "\<not> sandboxRunning s"
  shows "set_trap ev s w p v = (Inr True, w, s) \<and>
         facade_set ev s w p v =
           (if set_invariant_violated (fakeWindow s) p v then Inl TypeError else Inr True, w, s)"
  using assms by (simp add: set_trap_def facade_set_def)

theorem set_trap_inactive_silent_drop_witness:
  "\<not> sandboxRunning sandbox_A_inactive \<and>
   set_trap prod_env sandbox_A_inactive world_A_inactive (StrKey ''foo'') (JNum 1)
     = (Inr True, world_A_inactive, sandbox_A_inactive) \<and>
   facade_set prod_env sandbox_A_inactive world_A_inactive (StrKey ''foo'') (JNum 1)
     = (Inr True, world_A_inactive, sandbox_A_inactive) \<and>
   facade_set prod_env sandbox_A_inactive world_A_inactive (StrKey ''build'') (JNum 1)
     = (Inr True, world_A_inactive, sandbox_A_inactive)"
proof -
  have r: "\<not> sandboxRunning sandbox_A_inactive"
    by (simp add: sandbox_A_inactive_eq)
  have i: "\<not> set_invariant_violated (fakeWindow sandbox_A_inactive) (StrKey ''foo'') (JNum 1)"
          "\<not> set_invariant_violated (fakeWindow sandbox_A_inactive) (StrKey ''build'') (JNum 1)"
    by (simp_all add: sandbox_A_inactive_eq set_invariant_violated_def example_defs)
  show ?thesis
    using set_trap_inactive_silent_drop
            [OF r, of prod_env world_A_inactive "StrKey ''foo''" "JNum 1"]
          set_trap_inactive_silent_drop
            [OF r, of prod_env world_A_inactive "StrKey ''build''" "JNum 1"] r i
    by simp
qed

section \<open>ProxySandbox: self references and ancestor references\<close>



section \<open>ProxySandbox: writes of keys the overlay does not have\<close>

lemma sandbox_A_shadowed_state:
  "set_trap prod_env sandbox_A world_AB (StrKey ''hasOwnProperty'') (JNum 1) =
     (Inr True, world_AB,
      sandbox_A\<lparr> fakeWindow := put_own (fakeWindow sandbox_A) (StrKey ''hasOwnProperty'')
                                   (DataProp (JNum 1) True True True),
                 updatedValueSet := {StrKey ''hasOwnProperty''},
                 latestSetProp := Some (StrKey ''hasOwnProperty'') \<rparr>)"
  by (simp add: set_trap_def example_defs prod_env_whitelist[unfolded prod_env_def]
                call_hasOwnProperty_def js_get_def js_assign_def put_own_def Let_def)

lemma sandbox_A_shadowed_eq:
  "sandbox_A_shadowed =
     sandbox_A\<lparr> fakeWindow := put_own (fakeWindow sandbox_A) (StrKey ''hasOwnProperty'')
                                  (DataProp (JNum 1) True True True),
                updatedValueSet := {StrKey ''hasOwnProperty''},
                latestSetProp := Some (StrKey ''hasOwnProperty'') \<rparr>"
  by (simp add: sandbox_A_shadowed_def sandbox_A_shadowed_state)

lemma sandbox_A_shadowed_call:
  "call_hasOwnProperty (fakeWindow sandbox_A_shadowed) p = Inl TypeError"
  by (simp add: sandbox_A_shadowed_eq call_hasOwnProperty_def js_get_def put_own_def)

text \<open>
  C3, as stated, fails: the shared window has \<^verbatim>\<open>version\<close>, a data property that is
  not writable, and the overlay of the active sandbox \<open>A\<close> has none. A set of
  \<^verbatim>\<open>version\<close> returns true, but it copies nothing and writes nothing into the
  overlay. And after a set of the key \<^verbatim>\<open>hasOwnProperty\<close> through the facade (which
  returns true), the overlay answers \<^verbatim>\<open>target.hasOwnProperty\<close> with the number that
  was written: a set of a key that neither object has then throws a \<^verbatim>\<open>TypeError\<close>
  and records nothing.
\<close>

theorem set_trap_active_unshadowed_counterexample:
  "sandboxRunning sandbox_A \<and>
   own (fakeWindow sandbox_A) (StrKey ''version'') = None \<and>
   own (window world_AB) (StrKey ''version'') = Some (DataProp (JNum 7) False True True) \<and>
   fst (set_trap prod_env sandbox_A world_AB (StrKey ''version'') (JNum 8)) = Inr True \<and>
   own (fakeWindow (snd (snd (set_trap prod_env sandbox_A world_AB (StrKey ''version'') (JNum 8)))))
     (StrKey ''version'') = None \<and>
   fst (set_trap prod_env sandbox_A world_AB (StrKey ''hasOwnProperty'') (JNum 1)) = Inr True \<and>
   sandboxRunning sandbox_A_shadowed \<and>
   own (fakeWindow sandbox_A_shadowed) (StrKey ''foo'') = None \<and>
   own (window world_AB) (StrKey ''foo'') = None \<and>
   set_trap prod_env sandbox_A_shadowed world_AB (StrKey ''foo'') (JNum 1) =
     (Inl TypeError, world_AB, sandbox_A_shadowed)"
proof -
  have a: "sandboxRunning sandbox_A" by (rule sandbox_A_running)
  have b: "own (fakeWindow sandbox_A) (StrKey ''version'') = None"
    by (simp add: example_defs)
  have c: "own (window world_AB) (StrKey ''version'') = Some (DataProp (JNum 7) False True True)"
    by (simp add: example_defs)
  have st: "set_trap prod_env sandbox_A world_AB (StrKey ''version'') (JNum 8) =
              (Inr True, world_AB,
               sandbox_A\<lparr> updatedValueSet := {StrKey ''version''},
                          latestSetProp := Some (StrKey ''version'') \<rparr>)"
    by (simp add: set_trap_def example_defs prod_env_whitelist[unfolded prod_env_def]
                  call_hasOwnProperty_def js_get_def Let_def)
  have d: "fst (set_trap prod_env sandbox_A world_AB (StrKey ''version'') (JNum 8)) = Inr True"
    by (simp add: st)
  have e: "own (fakeWindow (snd (snd (set_trap prod_env sandbox_A world_AB (StrKey ''version'') (JNum 8)))))
             (StrKey ''version'') = None"
    using b by (simp add: st)
  have f: "fst (set_trap prod_env sandbox_A world_AB (StrKey ''hasOwnProperty'') (JNum 1)) = Inr True"
    by (simp add: sandbox_A_shadowed_state)
  have g: "sandboxRunning sandbox_A_shadowed"
    using a by (simp add: sandbox_A_shadowed_eq)
  have h: "own (fakeWindow sandbox_A_shadowed) (StrKey ''foo'') = None"
    by (simp add: sandbox_A_shadowed_eq put_own_def example_defs)
  have i: "own (window world_AB) (StrKey ''foo'') = None"
    by (simp add: example_defs)
  have j: "set_trap prod_env sandbox_A_shadowed world_AB (StrKey ''foo'') (JNum 1) =
             (Inl TypeError, world_AB, sandbox_A_shadowed)"
    using g by (simp add: set_trap_def sandbox_A_shadowed_call)
  show ?thesis using a b c d e f g h i j by (intro conjI)
qed

text \<open>
  C3, amended. In an active ProxySandbox, take a set of a key \<open>p\<close> that the overlay
  does not own, where the \<^verbatim>\<open>hasOwnProperty\<close> that the overlay and the shared window
  answer is the built-in method, and where the set calls no setter of the page.

  If the shared window owns \<open>p\<close> and its descriptor is writable, \<open>p\<close> is defined in
  the overlay with the new value and the enumerable and configurable attributes of the
  shared window's descriptor (and writable); the trap returns true, \<open>p\<close> is added to
  \<^verbatim>\<open>updatedValueSet\<close> and becomes \<^verbatim>\<open>latestSetProp\<close>. (Only a non-extensible overlay
  rejects the definition; the trap then throws a \<^verbatim>\<open>TypeError\<close> and changes nothing.)

  If the shared window owns \<open>p\<close> and its descriptor is not writable (a read-only data
  property or an accessor), the overlay stays as it is.

  If the shared window does not own \<open>p\<close>, the value is assigned to the overlay: when
  the overlay is extensible and inherits \<open>p\<close> not at all or as a writable data
  property, \<open>p\<close> becomes a writable, enumerable, configurable data property of the
  overlay with the value; otherwise (an inherited read-only property, an inherited
  accessor without a setter, a non-extensible overlay) the trap throws a
  \<^verbatim>\<open>TypeError\<close> and changes nothing. (An inherited accessor with a setter, such as
  \<^verbatim>\<open>__proto__\<close>, has its setter called.)

  In the last two cases the trap then returns true, adds \<open>p\<close> to \<^verbatim>\<open>updatedValueSet\<close>
  and makes it \<^verbatim>\<open>latestSetProp\<close>, unless \<open>p\<close> is allow-listed and the assignment
  to the shared window throws: then the trap throws too, and \<open>p\<close> is not recorded.

  In every case the \<^verbatim>\<open>Proxy\<close> holds nothing against the result of the trap: the set
  through the facade does what the trap does.
\<close>

theorem set_trap_active_unshadowed:
  assumes "sandboxRunning s" and "own (fakeWindow s) p = None"
      and "builtin_hasOwnProperty (fakeWindow s)" and "builtin_hasOwnProperty (window w)"
      and "fst (set_trap ev s w p v) \<noteq> Inl ForeignCall"
  shows "(case own (window w) p of
            Some d \<Rightarrow>
              if desc_writable d then
                (if extensible (fakeWindow s) then
                   fst (set_trap ev s w p v) = Inr True \<and>
                   fakeWindow (snd (snd (set_trap ev s w p v))) =
                     put_own (fakeWindow s) p (DataProp v True (enumerable d) (configurable d)) \<and>
                   updatedValueSet (snd (snd (set_trap ev s w p v))) = insert p (updatedValueSet s) \<and>
                   latestSetProp (snd (snd (set_trap ev s w p v))) = Some p
                 else set_trap ev s w p v = (Inl TypeError, w, s))
              else
                fakeWindow (snd (snd (set_trap ev s w p v))) = fakeWindow s \<and>
                (case (if p \<in> set (variableWhiteList ev)
                       then js_assign (window w) p v else Inr (window w)) of
                   Inl e \<Rightarrow>
                     fst (set_trap ev s w p v) = Inl e \<and>
                     updatedValueSet (snd (snd (set_trap ev s w p v))) = updatedValueSet s \<and>
                     latestSetProp (snd (snd (set_trap ev s w p v))) = latestSetProp s
                 | Inr win \<Rightarrow>
                     fst (set_trap ev s w p v) = Inr True \<and>
                     updatedValueSet (snd (snd (set_trap ev s w p v))) =
                       insert p (updatedValueSet s) \<and>
                     latestSetProp (snd (snd (set_trap ev s w p v))) = Some p)
          | None \<Rightarrow>
              if accepts_new_key (fakeWindow s) p then
                fakeWindow (snd (snd (set_trap ev s w p v))) =
                  put_own (fakeWindow s) p (DataProp v True True True) \<and>
                (case (if p \<in> set (variableWhiteList ev)
                       then js_assign (window w) p v else Inr (window w)) of
                   Inl e \<Rightarrow>
                     fst (set_trap ev s w p v) = Inl e \<and>
                     updatedValueSet (snd (snd (set_trap ev s w p v))) = updatedValueSet s \<and>
                     latestSetProp (snd (snd (set_trap ev s w p v))) = latestSetProp s
                 | Inr win \<Rightarrow>
                     fst (set_trap ev s w p v) = Inr True \<and>
                     updatedValueSet (snd (snd (set_trap ev s w p v))) =
                       insert p (updatedValueSet s) \<and>
                     latestSetProp (snd (snd (set_trap ev s w p v))) = Some p)
              else set_trap ev s w p v = (Inl TypeError, w, s)) \<and>
         facade_set ev s w p v = set_trap ev s w p v"
proof -
  have ct: "call_hasOwnProperty (fakeWindow s) p = Inr False"
    using assms(2,3) by (simp add: call_hasOwnProperty_def builtin_hasOwnProperty_def)
  have cw: "call_hasOwnProperty (window w) p = Inr (own (window w) p \<noteq> None)"
    using assms(4) by (simp add: call_hasOwnProperty_def builtin_hasOwnProperty_def)
  have cases: "(case own (window w) p of
            Some d \<Rightarrow>
              if desc_writable d then
                (if extensible (fakeWindow s) then
                   fst (set_trap ev s w p v) = Inr True \<and>
                   fakeWindow (snd (snd (set_trap ev s w p v))) =
                     put_own (fakeWindow s) p (DataProp v True (enumerable d) (configurable d)) \<and>
                   updatedValueSet (snd (snd (set_trap ev s w p v))) = insert p (updatedValueSet s) \<and>
                   latestSetProp (snd (snd (set_trap ev s w p v))) = Some p
                 else set_trap ev s w p v = (Inl TypeError, w, s))
              else
                fakeWindow (snd (snd (set_trap ev s w p v))) = fakeWindow s \<and>
                (case (if p \<in> set (variableWhiteList ev)
                       then js_assign (window w) p v else Inr (window w)) of
                   Inl e \<Rightarrow>
                     fst (set_trap ev s w p v) = Inl e \<and>
                     updatedValueSet (snd (snd (set_trap ev s w p v))) = updatedValueSet s \<and>
                     latestSetProp (snd (snd (set_trap ev s w p v))) = latestSetProp s
                 | Inr win \<Rightarrow>
                     fst (set_trap ev s w p v) = Inr True \<and>
                     updatedValueSet (snd (snd (set_trap ev s w p v))) =
                       insert p (updatedValueSet s) \<and>
                     latestSetProp (snd (snd (set_trap ev s w p v))) = Some p)
          | None \<Rightarrow>
              if accepts_new_key (fakeWindow s) p then
                fakeWindow (snd (snd (set_trap ev s w p v))) =
                  put_own (fakeWindow s) p (DataProp v True True True) \<and>
                (case (if p \<in> set (variableWhiteList ev)
                       then js_assign (window w) p v else Inr (window w)) of
                   Inl e \<Rightarrow>
                     fst (set_trap ev s w p v) = Inl e \<and>
                     updatedValueSet (snd (snd (set_trap ev s w p v))) = updatedValueSet s \<and>
                     latestSetProp (snd (snd (set_trap ev s w p v))) = latestSetProp s
                 | Inr win \<Rightarrow>
                     fst (set_trap ev s w p v) = Inr True \<and>
                     updatedValueSet (snd (snd (set_trap ev s w p v))) =
                       insert p (updatedValueSet s) \<and>
                     latestSetProp (snd (snd (set_trap ev s w p v))) = Some p)
              else
                (fst (set_trap ev s w p v) = Inl TypeError \<or>
                 fst (set_trap ev s w p v) = Inl ForeignCall) \<and>
                snd (set_trap ev s w p v) = (w, s))"
  proof (cases "own (window w) p")
    case None
    show ?thesis
    proof (cases "accepts_new_key (fakeWindow s) p")
      case True
      have "js_assign (fakeWindow s) p v = Inr (put_own (fakeWindow s) p (DataProp v True True True))"
        using True assms(2)
        by (auto simp: js_assign_def accepts_new_key_def split: option.splits property.splits)
      then show ?thesis
        using None True assms(1) ct cw
        by (auto simp: set_trap_def Let_def split: sum.splits)
    next
      case False
      have "js_assign (fakeWindow s) p v = Inl TypeError \<or>
            js_assign (fakeWindow s) p v = Inl ForeignCall"
        using False assms(2)
        by (auto simp: js_assign_def accepts_new_key_def
                 split: option.splits property.splits setter.splits)
      then show ?thesis
        using None False assms(1) ct cw
        by (auto simp: set_trap_def Let_def split: sum.splits)
    qed
  next
    case (Some d)
    show ?thesis
    proof (cases "desc_writable d")
      case True
      then obtain v0 e c where d: "d = DataProp v0 True e c"
        by (cases d) auto
      have wb: "js_assign (window w) p v = Inr (put_own (window w) p (DataProp v True e c))"
        using Some d by (simp add: js_assign_def)
      show ?thesis
        using Some d assms(1,2) ct cw wb
        by (auto simp: set_trap_def Let_def Object_defineProperty_def defineOwnProperty_def
                       is_accessor_descriptor_def)
    next
      case False
      then show ?thesis
        using Some assms(1) ct cw
        by (auto simp: set_trap_def Let_def split: sum.splits)
    qed
  qed
  have after: "b \<and> \<not> set_invariant_violated (fakeWindow s1) p v"
    if "set_trap ev s w p v = (Inr b, w1, s1)" for b w1 s1
    using that assms(1,2) ct cw
    by (auto simp: set_trap_def Let_def set_invariant_violated_def js_assign_def put_own_def
                   Object_defineProperty_def defineOwnProperty_def is_accessor_descriptor_def
             split: sum.splits option.splits property.splits if_splits setter.splits)
  have fac: "facade_set ev s w p v = set_trap ev s w p v"
  proof (cases "set_trap ev s w p v")
    case (fields r w1 s1)
    show ?thesis
    proof (cases r)
      case (Inl e)
      then show ?thesis using fields by (simp add: facade_set_def)
    next
      case (Inr b)
      with after[of b w1 s1] fields show ?thesis by (simp add: facade_set_def)
    qed
  qed
  have main: "(case own (window w) p of
            Some d \<Rightarrow>
              if desc_writable d then
                (if extensible (fakeWindow s) then
                   fst (set_trap ev s w p v) = Inr True \<and>
                   fakeWindow (snd (snd (set_trap ev s w p v))) =
                     put_own (fakeWindow s) p (DataProp v True (enumerable d) (configurable d)) \<and>
                   updatedValueSet (snd (snd (set_trap ev s w p v))) = insert p (updatedValueSet s) \<and>
                   latestSetProp (snd (snd (set_trap ev s w p v))) = Some p
                 else set_trap ev s w p v = (Inl TypeError, w, s))
              else
                fakeWindow (snd (snd (set_trap ev s w p v))) = fakeWindow s \<and>
                (case (if p \<in> set (variableWhiteList ev)
                       then js_assign (window w) p v else Inr (window w)) of
                   Inl e \<Rightarrow>
                     fst (set_trap ev s w p v) = Inl e \<and>
                     updatedValueSet (snd (snd (set_trap ev s w p v))) = updatedValueSet s \<and>
                     latestSetProp (snd (snd (set_trap ev s w p v))) = latestSetProp s
                 | Inr win \<Rightarrow>
                     fst (set_trap ev s w p v) = Inr True \<and>
                     updatedValueSet (snd (snd (set_trap ev s w p v))) =
                       insert p (updatedValueSet s) \<and>
                     latestSetProp (snd (snd (set_trap ev s w p v))) = Some p)
          | None \<Rightarrow>
              if accepts_new_key (fakeWindow s) p then
                fakeWindow (snd (snd (set_trap ev s w p v))) =
                  put_own (fakeWindow s) p (DataProp v True True True) \<and>
                (case (if p \<in> set (variableWhiteList ev)
                       then js_assign (window w) p v else Inr (window w)) of
                   Inl e \<Rightarrow>
                     fst (set_trap ev s w p v) = Inl e \<and>
                     updatedValueSet (snd (snd (set_trap ev s w p v))) = updatedValueSet s \<and>
                     latestSetProp (snd (snd (set_trap ev s w p v))) = latestSetProp s
                 | Inr win \<Rightarrow>
                     fst (set_trap ev s w p v) = Inr True \<and>
                     updatedValueSet (snd (snd (set_trap ev s w p v))) =
                       insert p (updatedValueSet s) \<and>
                     latestSetProp (snd (snd (set_trap ev s w p v))) = Some p)
              else set_trap ev s w p v = (Inl TypeError, w, s))"
  proof (cases "own (window w) p = None \<and> \<not> accepts_new_key (fakeWindow s) p")
    case True
    with cases have "(fst (set_trap ev s w p v) = Inl TypeError \<or>
                      fst (set_trap ev s w p v) = Inl ForeignCall) \<and>
                     snd (set_trap ev s w p v) = (w, s)"
      by simp
    with assms(5) have "set_trap ev s w p v = (Inl TypeError, w, s)"
      by (simp add: prod_eq_iff)
    with True show ?thesis by simp
  next
    case False
    with cases show ?thesis by (auto split: option.splits)
  qed
  show ?thesis using main fac by (rule conjI)
qed

theorem set_trap_active_unshadowed_witness:
  "sandboxRunning sandbox_A \<and>
   own (fakeWindow sandbox_A) (StrKey ''title'') = None \<and>
   builtin_hasOwnProperty (fakeWindow sandbox_A) \<and>
   builtin_hasOwnProperty (window world_AB) \<and>
   own (window world_AB) (StrKey ''title'') = Some (DataProp (JStr ''host'') True True True) \<and>
   fst (set_trap prod_env sandbox_A world_AB (StrKey ''title'') (JStr ''app'')) = Inr True \<and>
   own (fakeWindow (snd (snd (set_trap prod_env sandbox_A world_AB (StrKey ''title'') (JStr ''app'')))))
     (StrKey ''title'') = Some (DataProp (JStr ''app'') True True True) \<and>
   StrKey ''title'' \<in>
     updatedValueSet (snd (snd (set_trap prod_env sandbox_A world_AB (StrKey ''title'') (JStr ''app'')))) \<and>
   latestSetProp (snd (snd (set_trap prod_env sandbox_A world_AB (StrKey ''title'') (JStr ''app''))))
     = Some (StrKey ''title'')"
proof -
  have fa: "own (fakeWindow sandbox_A) (StrKey ''title'') = None"
    by (simp add: example_defs)
  have wt: "own (window world_AB) (StrKey ''title'') = Some (DataProp (JStr ''host'') True True True)"
    by (simp add: example_defs)
  have ex: "extensible (fakeWindow sandbox_A)"
    by (simp add: example_defs)
  have nf: "fst (set_trap prod_env sandbox_A world_AB (StrKey ''title'') (JStr ''app'')) \<noteq>
              Inl ForeignCall"
    by (simp add: set_trap_def example_defs prod_env_whitelist[unfolded prod_env_def]
                  call_hasOwnProperty_def js_get_def Object_defineProperty_def
                  defineOwnProperty_def is_accessor_descriptor_def put_own_def Let_def)
  from set_trap_active_unshadowed
         [OF sandbox_A_running fa sandbox_A_builtin world_AB_builtin nf]
       sandbox_A_running fa wt ex sandbox_A_builtin world_AB_builtin
  show ?thesis by (simp add: put_own_def)
qed

section \<open>ProxySandbox: deleting through the facade\<close>

text \<open>
  C10, as stated, fails: the trap does not return true for every key. The overlay of
  sandbox \<open>A\<close> holds \<^verbatim>\<open>document\<close>, copied from the shared window because it is not
  configurable there; \<^verbatim>\<open>delete target[p]\<close> on it throws a \<^verbatim>\<open>TypeError\<close>, and so does
  the trap. And after a set of the key \<^verbatim>\<open>hasOwnProperty\<close> through the facade, the
  overlay answers \<^verbatim>\<open>target.hasOwnProperty\<close> with the number that was written, and the
  trap throws a \<^verbatim>\<open>TypeError\<close> for a key that the overlay does not have.
\<close>

theorem deleteProperty_trap_counterexample:
  "own (fakeWindow sandbox_A) (StrKey ''document'') =
     Some (AccessorProp (ObjRef 1) NoSetter True False) \<and>
   fst (deleteProperty_trap sandbox_A world_AB (StrKey ''document'')) = Inl TypeError \<and>
   fst (set_trap prod_env sandbox_A world_AB (StrKey ''hasOwnProperty'') (JNum 1)) = Inr True \<and>
   own (fakeWindow sandbox_A_shadowed) (StrKey ''foo'') = None \<and>
   fst (deleteProperty_trap sandbox_A_shadowed world_AB (StrKey ''foo'')) = Inl TypeError"
proof -
  have a: "own (fakeWindow sandbox_A) (StrKey ''document'') =
             Some (AccessorProp (ObjRef 1) NoSetter True False)"
    by (simp add: example_defs)
  have b: "fst (deleteProperty_trap sandbox_A world_AB (StrKey ''document'')) = Inl TypeError"
    using a sandbox_A_builtin
    by (simp add: deleteProperty_trap_def call_hasOwnProperty_def builtin_hasOwnProperty_def
                  js_delete_def)
  have c: "fst (set_trap prod_env sandbox_A world_AB (StrKey ''hasOwnProperty'') (JNum 1)) = Inr True"
    by (simp add: sandbox_A_shadowed_state)
  have d: "own (fakeWindow sandbox_A_shadowed) (StrKey ''foo'') = None"
    by (simp add: sandbox_A_shadowed_eq put_own_def example_defs)
  have e: "fst (deleteProperty_trap sandbox_A_shadowed world_AB (StrKey ''foo'')) = Inl TypeError"
    by (simp add: deleteProperty_trap_def sandbox_A_shadowed_call)
  show ?thesis using a b c d e by (intro conjI)
qed

text \<open>
  C10, amended. The \<^verbatim>\<open>deleteProperty\<close> trap never modifies the shared state, and so
  never the shared window, unless it calls a function of the page; and the \<^verbatim>\<open>Proxy\<close>
  holds nothing against its result, so deleting through the facade does what the trap
  does. When the \<^verbatim>\<open>hasOwnProperty\<close> that the overlay answers is the built-in method:
  for a key that the overlay does not own the trap returns true and changes nothing;
  for a key that the overlay owns as a configurable property it returns true, having
  removed the key from the overlay and from \<^verbatim>\<open>updatedValueSet\<close> and nothing else; for
  a key that the overlay owns as a non-configurable property it throws a
  \<^verbatim>\<open>TypeError\<close> and changes nothing. When the overlay answers \<^verbatim>\<open>hasOwnProperty\<close> with
  something else, then for every key the trap throws a \<^verbatim>\<open>TypeError\<close> and changes
  nothing if that value is not a function, and calls it if it is one.
\<close>

theorem deleteProperty_trap_overlay_only:
  "(fst (deleteProperty_trap s w p) \<noteq> Inl ForeignCall \<longrightarrow>
      fst (snd (deleteProperty_trap s w p)) = w) \<and>
   (if builtin_hasOwnProperty (fakeWindow s) then
      (case own (fakeWindow s) p of
         None \<Rightarrow> deleteProperty_trap s w p = (Inr True, w, s)
       | Some d \<Rightarrow>
           if configurable d
           then deleteProperty_trap s w p =
                  (Inr True, w,
                   s\<lparr> fakeWindow := (fakeWindow s)\<lparr> own := (own (fakeWindow s))(p := None) \<rparr>,
                      updatedValueSet := updatedValueSet s - {p} \<rparr>)
           else deleteProperty_trap s w p = (Inl TypeError, w, s))
    else if is_callable (js_get (fakeWindow s) (StrKey ''hasOwnProperty''))
    then fst (deleteProperty_trap s w p) = Inl ForeignCall
    else deleteProperty_trap s w p = (Inl TypeError, w, s)) \<and>
   facade_deleteProperty s w p = deleteProperty_trap s w p"
  by (auto simp: deleteProperty_trap_def facade_deleteProperty_def call_hasOwnProperty_def
                 builtin_hasOwnProperty_def js_delete_def split: option.splits sum.splits)

theorem deleteProperty_trap_overlay_only_witness:
  "builtin_hasOwnProperty (fakeWindow sandbox_A) \<and>
   own (fakeWindow sandbox_A) (StrKey ''foo'') = None \<and>
   deleteProperty_trap sandbox_A world_AB (StrKey ''foo'') = (Inr True, world_AB, sandbox_A) \<and>
   fst (deleteProperty_trap sandbox_A world_AB (StrKey ''top'')) = Inr True \<and>
   fst (snd (deleteProperty_trap sandbox_A world_AB (StrKey ''top''))) = world_AB \<and>
   own (fakeWindow (snd (snd (deleteProperty_trap sandbox_A world_AB (StrKey ''top'')))))
     (StrKey ''top'') = None"
proof -
  have a: "own (fakeWindow sandbox_A) (StrKey ''foo'') = None"
    by (simp add: example_defs)
  have b: "own (fakeWindow sandbox_A) (StrKey ''top'') = Some (AccessorProp WindowRef NoSetter True True)"
    by (simp add: example_defs)
  show ?thesis
    using deleteProperty_trap_overlay_only
            [where s = sandbox_A and w = world_AB and p = "StrKey ''foo''"]
          deleteProperty_trap_overlay_only
            [where s = sandbox_A and w = world_AB and p = "StrKey ''top''"] a b sandbox_A_builtin
    by simp
qed

section \<open>SingularProxySandbox: the round trip of inactive and active\<close>


































section \<open>The sandbox container: order of the calls in mount\<close>

lemma map_free_length: "map_free fs st = (rs, st') \<Longrightarrow> length rs = length fs"
  by (induction fs arbitrary: st rs st') (auto split: prod.splits)

lemma map_free_append:
  "map_free (fs @ gs) st =
     (case map_free fs st of
        (rs, st1) \<Rightarrow> (case map_free gs st1 of (rs', st2) \<Rightarrow> (rs @ rs', st2)))"
  by (induction fs arbitrary: st) (auto split: prod.splits)

text \<open>
  For any freers, rebuilders, sandbox and mount-phase patcher: \<^verbatim>\<open>unmount\<close> stores the
  rebuilders of the bootstrap freers followed by those of the mount freers, and the
  next \<^verbatim>\<open>mount\<close> activates the sandbox, runs the former, installs the mount-phase
  patches, runs the latter and empties the list.
\<close>

lemma mount_after_unmount_generic:
  assumes b: "map_free (bootstrappingFreers c) st = (rb, st1)"
      and m: "map_free (mountingFreers c) st1 = (rm, st2)"
      and p: "patchAtMounting (forEach_rebuild rb (sandbox_active (sandbox_inactive st2))) = (fs, st3)"
  shows "unmount sandbox_inactive c st =
           (c\<lparr> sideEffectsRebuilders := rb @ rm \<rparr>, sandbox_inactive st2)"
    and "mount sandbox_active patchAtMounting
           (fst (unmount sandbox_inactive c st)) (snd (unmount sandbox_inactive c st)) =
         (c\<lparr> mountingFreers := fs, sideEffectsRebuilders := [] \<rparr>, forEach_rebuild rm st3)"
proof -
  show u: "unmount sandbox_inactive c st =
             (c\<lparr> sideEffectsRebuilders := rb @ rm \<rparr>, sandbox_inactive st2)"
    using b m by (simp add: unmount_def map_free_append)
  have l: "length rb = length (bootstrappingFreers c)"
    using b by (rule map_free_length)
  show "mount sandbox_active patchAtMounting
           (fst (unmount sandbox_inactive c st)) (snd (unmount sandbox_inactive c st)) =
         (c\<lparr> mountingFreers := fs, sideEffectsRebuilders := [] \<rparr>, forEach_rebuild rm st3)"
    using p l by (cases "rb = []"; cases "rm = []") (simp_all add: u mount_def Let_def)
qed

lemma map_free_recording:
  "map_free (map recording_freer ks) calls = (map recording_rebuilder ks, calls @ map Free ks)"
  by (induction ks arbitrary: calls) (simp_all add: recording_freer_def)

lemma forEach_rebuild_recording:
  "forEach_rebuild (map recording_rebuilder ks) calls = calls @ map Rebuild ks"
  by (induction ks arbitrary: calls) (simp_all add: recording_rebuilder_def)

text \<open>
  C6. Let the container have the bootstrap freers \<open>bs\<close> and the mount freers \<open>ms\<close>
  (freers that record their calls). \<^verbatim>\<open>unmount()\<close> stores the rebuilders of \<open>bs\<close>
  followed by those of \<open>ms\<close>. The \<^verbatim>\<open>mount()\<close> that follows makes these calls, in
  this order: \<^verbatim>\<open>sandbox.active()\<close>, the stored rebuilders of \<open>bs\<close>, the installation
  of the mount-phase patches, the stored rebuilders of \<open>ms\<close>; and it leaves the list
  of stored rebuilders empty. So every bootstrap rebuilder runs before any mount
  rebuilder.
\<close>

theorem mount_after_unmount_order:
  assumes "bootstrappingFreers c = map recording_freer bs"
      and "mountingFreers c = map recording_freer ms"
  shows "sideEffectsRebuilders (fst (unmount recording_inactive c calls)) =
           map recording_rebuilder bs @ map recording_rebuilder ms \<and>
         mount recording_active (recording_patchAtMounting ns)
           (fst (unmount recording_inactive c calls)) (snd (unmount recording_inactive c calls)) =
         (c\<lparr> mountingFreers := map recording_freer ns, sideEffectsRebuilders := [] \<rparr>,
          calls @ map Free bs @ map Free ms @ [SandboxInactive] @
          [SandboxActive] @ map Rebuild bs @ [PatchAtMounting] @ map Rebuild ms)"
proof -
  have b: "map_free (bootstrappingFreers c) calls =
             (map recording_rebuilder bs, calls @ map Free bs)"
    using assms(1) by (simp add: map_free_recording)
  have m: "map_free (mountingFreers c) (calls @ map Free bs) =
             (map recording_rebuilder ms, (calls @ map Free bs) @ map Free ms)"
    using assms(2) by (simp add: map_free_recording)
  have p: "recording_patchAtMounting ns
             (forEach_rebuild (map recording_rebuilder bs)
                (recording_active (recording_inactive ((calls @ map Free bs) @ map Free ms)))) =
           (map recording_freer ns,
            calls @ map Free bs @ map Free ms @ [SandboxInactive] @
            [SandboxActive] @ map Rebuild bs @ [PatchAtMounting])"
    by (simp add: recording_patchAtMounting_def forEach_rebuild_recording
                  recording_active_def recording_inactive_def)
  show ?thesis
    using mount_after_unmount_generic
            [where sandbox_active = recording_active and sandbox_inactive = recording_inactive
               and patchAtMounting = "recording_patchAtMounting ns", OF b m p]
    by (simp add: forEach_rebuild_recording)
qed

theorem mount_after_unmount_order_witness:
  "bootstrappingFreers example_container = map recording_freer [1, 2] \<and>
   mountingFreers example_container = map recording_freer [3] \<and>
   snd (mount recording_active (recording_patchAtMounting [4])
          (fst (unmount recording_inactive example_container []))
          (snd (unmount recording_inactive example_container []))) =
     [Free 1, Free 2, Free 3, SandboxInactive,
      SandboxActive, Rebuild 1, Rebuild 2, PatchAtMounting, Rebuild 3] \<and>
   sideEffectsRebuilders
     (fst (mount recording_active (recording_patchAtMounting [4])
             (fst (unmount recording_inactive example_container []))
             (snd (unmount recording_inactive example_container [])))) = []"
proof -
  have b: "bootstrappingFreers example_container = map recording_freer [1, 2]"
    by (simp add: example_container_def)
  have m: "mountingFreers example_container = map recording_freer [3]"
    by (simp add: example_container_def)
  show ?thesis
    using mount_after_unmount_order[OF b m, of "[]" "[4]"] b m by simp
qed


section \<open>The strict sandbox patch: reference counts and rebuilders\<close>

lemma patchStrictSandbox_installations:
  "createElementPatched (snd (patchStrictSandbox nm prx mounting scopedCSS st)) \<and>
   dynamicAppendPatched (snd (patchStrictSandbox nm prx mounting scopedCSS st)) \<and>
   createElementInstallations (snd (patchStrictSandbox nm prx mounting scopedCSS st)) =
     (if createElementPatched st then createElementInstallations st
      else Suc (createElementInstallations st)) \<and>
   dynamicAppendInstallations (snd (patchStrictSandbox nm prx mounting scopedCSS st)) =
     (if dynamicAppendPatched st then dynamicAppendInstallations st
      else Suc (dynamicAppendInstallations st))"
  by (simp add: patchStrictSandbox_def patchDocumentCreateElement_def
                patchHTMLDynamicAppendPrototypeFunctions_def Let_def split: option.splits)

lemma patch_all_installations:
  "createElementInstallations (patch_all calls st) =
     (if createElementPatched st \<or> calls = [] then createElementInstallations st
      else Suc (createElementInstallations st)) \<and>
   dynamicAppendInstallations (patch_all calls st) =
     (if dynamicAppendPatched st \<or> calls = [] then dynamicAppendInstallations st
      else Suc (dynamicAppendInstallations st))"
proof (induction calls arbitrary: st)
  case Nil
  then show ?case by simp
next
  case (Cons call calls)
  obtain nm prx mounting scopedCSS where c: "call = (nm, prx, mounting, scopedCSS)"
    by (cases call) auto
  show ?case
    using Cons.IH[of "snd (patchStrictSandbox nm prx mounting scopedCSS st)"]
          patchStrictSandbox_installations[of nm prx mounting scopedCSS st]
    by (simp add: c)
qed

lemma free_restores:
  "createElementPatched (snd (free fr st)) =
     (createElementPatched st \<and>
      \<not> (mountingPatchCount (snd (free fr st)) = 0 \<and>
         bootstrappingPatchCount (snd (free fr st)) = 0)) \<and>
   dynamicAppendPatched (snd (free fr st)) =
     (dynamicAppendPatched st \<and>
      \<not> (mountingPatchCount (snd (free fr st)) = 0 \<and>
         bootstrappingPatchCount (snd (free fr st)) = 0))"
  by (cases fr)
     (auto simp: Let_def unpatchDocumentCreate_def unpatchDynamicAppendPrototypeFunctions_def)

lemma has_node_self: "has_node e (element_id e)"
  by (cases e) simp

lemma has_node_more_children:
  "has_node (Element i cs) x \<Longrightarrow> has_node (Element i (cs @ ys)) x"
  by auto

lemma reAppendElement_contained:
  "has_node w (element_id e) \<Longrightarrow> reAppendElement e w = (False, w)"
  by (simp add: reAppendElement_def contains_def)

lemma reAppendElement_missing:
  "\<not> has_node (Element i cs) (element_id e) \<Longrightarrow>
   reAppendElement e (Element i cs) = (True, Element i (cs @ [e]))"
  by (simp add: reAppendElement_def contains_def)

lemma rebuildCSSRules_reAppend:
  "\<exists>ys. rebuildCSSRules es reAppendElement (Element i cs) = Element i (cs @ ys) \<and>
        set ys \<subseteq> set es \<and>
        (\<forall>e \<in> set ys. \<not> has_node (Element i cs) (element_id e)) \<and>
        (\<forall>e \<in> set es. has_node (Element i (cs @ ys)) (element_id e))"
proof (induction es arbitrary: cs)
  case Nil
  then show ?case by simp
next
  case (Cons e es)
  show ?case
  proof (cases "has_node (Element i cs) (element_id e)")
    case True
    from Cons.IH[of cs] obtain ys where
      ys: "rebuildCSSRules es reAppendElement (Element i cs) = Element i (cs @ ys)"
          "set ys \<subseteq> set es"
          "\<forall>e \<in> set ys. \<not> has_node (Element i cs) (element_id e)"
          "\<forall>e \<in> set es. has_node (Element i (cs @ ys)) (element_id e)"
      by blast
    have "has_node (Element i (cs @ ys)) (element_id e)"
      using True by (rule has_node_more_children)
    with ys True show ?thesis
      by (intro exI[of _ ys]) (auto simp: reAppendElement_contained)
  next
    case False
    from Cons.IH[of "cs @ [e]"] obtain ys where
      ys: "rebuildCSSRules es reAppendElement (Element i (cs @ [e])) = Element i ((cs @ [e]) @ ys)"
          "set ys \<subseteq> set es"
          "\<forall>x \<in> set ys. \<not> has_node (Element i (cs @ [e])) (element_id x)"
          "\<forall>x \<in> set es. has_node (Element i ((cs @ [e]) @ ys)) (element_id x)"
      by blast
    have a: "\<forall>x \<in> set (e # ys). \<not> has_node (Element i cs) (element_id x)"
      using ys(3) False by auto
    have b: "has_node (Element i (cs @ e # ys)) (element_id e)"
      using has_node_self[of e] by auto
    have c: "\<forall>x \<in> set es. has_node (Element i (cs @ e # ys)) (element_id x)"
      using ys(4) by simp
    show ?thesis
      using ys(1,2) a b c False
      by (intro exI[of _ "e # ys"]) (auto simp: reAppendElement_missing)
  qed
qed

lemma two_patch_calls_state:
  "patch_all two_patch_calls initial_patch_state =
     \<lparr> createElementPatched = True, createElementInstallations = 1,
       dynamicAppendPatched = True, dynamicAppendInstallations = 1,
       bootstrappingPatchCount = 1, mountingPatchCount = 1,
       proxyAttachContainerConfigMap =
         [ProxyRef 0 \<mapsto> \<lparr> appName = ''app1'', configProxy = ProxyRef 0,
                           dynamicStyleSheetElements = [], strictGlobal = True,
                           configScopedCSS = False \<rparr>,
          ProxyRef 1 \<mapsto> \<lparr> appName = ''app2'', configProxy = ProxyRef 1,
                           dynamicStyleSheetElements = [], strictGlobal = True,
                           configScopedCSS = False \<rparr>] \<rparr>"
  by (simp add: two_patch_calls_def initial_patch_state_def patchStrictSandbox_def
                patchDocumentCreateElement_def patchHTMLDynamicAppendPrototypeFunctions_def Let_def)

lemma patchStrictSandbox_counts:
  "bootstrappingPatchCount (snd (patchStrictSandbox nm prx mounting scopedCSS st)) =
     (if mounting then bootstrappingPatchCount st else bootstrappingPatchCount st + 1) \<and>
   mountingPatchCount (snd (patchStrictSandbox nm prx mounting scopedCSS st)) =
     (if mounting then mountingPatchCount st + 1 else mountingPatchCount st) \<and>
   fst (patchStrictSandbox nm prx mounting scopedCSS st) = StrictFreer mounting prx"
  by (simp add: patchStrictSandbox_def patchDocumentCreateElement_def
                patchHTMLDynamicAppendPrototypeFunctions_def Let_def split: option.splits)

lemma free_counts:
  "bootstrappingPatchCount (snd (free (StrictFreer mounting prx) st)) =
     (if \<not> mounting \<and> bootstrappingPatchCount st \<noteq> 0
      then bootstrappingPatchCount st - 1 else bootstrappingPatchCount st) \<and>
   mountingPatchCount (snd (free (StrictFreer mounting prx) st)) =
     (if mounting then mountingPatchCount st - 1 else mountingPatchCount st)"
  by (simp add: Let_def unpatchDocumentCreate_def unpatchDynamicAppendPrototypeFunctions_def)

lemma patch_all_counts:
  "bootstrappingPatchCount (patch_all calls st) = bootstrappingPatchCount st + int (bootstrapping_calls calls) \<and>
   mountingPatchCount (patch_all calls st) = mountingPatchCount st + int (mounting_calls calls) \<and>
   patch_freers calls st = map (\<lambda>(nm, prx, mounting, scopedCSS). StrictFreer mounting prx) calls"
proof (induction calls arbitrary: st)
  case Nil
  then show ?case by (simp add: bootstrapping_calls_def mounting_calls_def)
next
  case (Cons call calls)
  obtain nm prx mounting scopedCSS where c: "call = (nm, prx, mounting, scopedCSS)"
    by (cases call) auto
  show ?case
    using Cons.IH[of "snd (patchStrictSandbox nm prx mounting scopedCSS st)"]
          patchStrictSandbox_counts[of nm prx mounting scopedCSS st]
    by (simp add: c bootstrapping_calls_def mounting_calls_def)
qed

lemma patch_all_patched:
  "createElementPatched (patch_all calls st) = (createElementPatched st \<or> calls \<noteq> []) \<and>
   dynamicAppendPatched (patch_all calls st) = (dynamicAppendPatched st \<or> calls \<noteq> [])"
proof (induction calls arbitrary: st)
  case Nil
  then show ?case by simp
next
  case (Cons call calls)
  obtain nm prx mounting scopedCSS where c: "call = (nm, prx, mounting, scopedCSS)"
    by (cases call) auto
  show ?case
    using Cons.IH[of "snd (patchStrictSandbox nm prx mounting scopedCSS st)"]
          patchStrictSandbox_installations[of nm prx mounting scopedCSS st]
    by (simp add: c)
qed

lemma free_all_counts:
  assumes "int (length (filter (\<lambda>f. \<not> is_mounting f) fs)) \<le> bootstrappingPatchCount st"
      and "int (length (filter is_mounting fs)) \<le> mountingPatchCount st"
  shows "bootstrappingPatchCount (free_all fs st) =
           bootstrappingPatchCount st - int (length (filter (\<lambda>f. \<not> is_mounting f) fs)) \<and>
         mountingPatchCount (free_all fs st) =
           mountingPatchCount st - int (length (filter is_mounting fs)) \<and>
         createElementPatched (free_all fs st) =
           (createElementPatched st \<and>
            (fs = [] \<or> bootstrappingPatchCount (free_all fs st) \<noteq> 0 \<or> mountingPatchCount (free_all fs st) \<noteq> 0)) \<and>
         dynamicAppendPatched (free_all fs st) =
           (dynamicAppendPatched st \<and>
            (fs = [] \<or> bootstrappingPatchCount (free_all fs st) \<noteq> 0 \<or> mountingPatchCount (free_all fs st) \<noteq> 0))"
  using assms
proof (induction fs arbitrary: st)
  case Nil
  then show ?case by simp
next
  case (Cons f fs)
  obtain mounting prx where f: "f = StrictFreer mounting prx" by (cases f) auto
  let ?st1 = "snd (free f st)"
  have c: "bootstrappingPatchCount ?st1 =
             (if \<not> mounting \<and> bootstrappingPatchCount st \<noteq> 0
              then bootstrappingPatchCount st - 1 else bootstrappingPatchCount st)"
          "mountingPatchCount ?st1 =
             (if mounting then mountingPatchCount st - 1 else mountingPatchCount st)"
    using free_counts[of mounting prx st] by (simp_all add: f)
  have p: "createElementPatched ?st1 =
            (createElementPatched st \<and> \<not> (mountingPatchCount ?st1 = 0 \<and> bootstrappingPatchCount ?st1 = 0))"
          "dynamicAppendPatched ?st1 =
            (dynamicAppendPatched st \<and> \<not> (mountingPatchCount ?st1 = 0 \<and> bootstrappingPatchCount ?st1 = 0))"
    using free_restores[of f st] by simp_all
  have b1: "int (length (filter (\<lambda>f. \<not> is_mounting f) fs)) \<le> bootstrappingPatchCount ?st1"
    using Cons.prems(1) c by (auto simp: f split: if_splits)
  have b2: "int (length (filter is_mounting fs)) \<le> mountingPatchCount ?st1"
    using Cons.prems(2) c by (auto simp: f split: if_splits)
  note ih = Cons.IH[OF b1 b2]
  have e1: "bootstrappingPatchCount (free_all (f # fs) st) =
              bootstrappingPatchCount st - int (length (filter (\<lambda>f. \<not> is_mounting f) (f # fs)))"
    using conjunct1[OF ih] c Cons.prems(1) by (auto simp: f split: if_splits)
  have e2: "mountingPatchCount (free_all (f # fs) st) =
              mountingPatchCount st - int (length (filter is_mounting (f # fs)))"
    using conjunct1[OF conjunct2[OF ih]] c by (auto simp: f split: if_splits)
  have nonneg: "0 \<le> bootstrappingPatchCount (free_all fs ?st1)" "0 \<le> mountingPatchCount (free_all fs ?st1)"
    using conjunct1[OF ih] conjunct1[OF conjunct2[OF ih]] b1 b2 by simp_all
  have mono: "bootstrappingPatchCount (free_all fs ?st1) \<le> bootstrappingPatchCount ?st1"
             "mountingPatchCount (free_all fs ?st1) \<le> mountingPatchCount ?st1"
    using conjunct1[OF ih] conjunct1[OF conjunct2[OF ih]] by simp_all
  have z: "(mountingPatchCount ?st1 = 0 \<and> bootstrappingPatchCount ?st1 = 0) \<longrightarrow>
           (mountingPatchCount (free_all fs ?st1) = 0 \<and> bootstrappingPatchCount (free_all fs ?st1) = 0)"
    using nonneg mono by auto
  have e3: "createElementPatched (free_all (f # fs) st) =
           (createElementPatched st \<and>
            (bootstrappingPatchCount (free_all (f # fs) st) \<noteq> 0 \<or> mountingPatchCount (free_all (f # fs) st) \<noteq> 0))"
    using conjunct1[OF conjunct2[OF conjunct2[OF ih]]] p(1) z by auto
  have e4: "dynamicAppendPatched (free_all (f # fs) st) =
           (dynamicAppendPatched st \<and>
            (bootstrappingPatchCount (free_all (f # fs) st) \<noteq> 0 \<or> mountingPatchCount (free_all (f # fs) st) \<noteq> 0))"
    using conjunct2[OF conjunct2[OF conjunct2[OF ih]]] p(2) z by auto
  show ?case using e1 e2 e3 e4 by simp
qed


lemma length_filter_split:
  "length (filter P xs) + length (filter (\<lambda>x. \<not> P x) xs) = length xs"
  by (induction xs) auto

lemma calls_split: "bootstrapping_calls calls + mounting_calls calls = length calls"
  unfolding bootstrapping_calls_def mounting_calls_def
  by (induction calls) auto

text \<open>
  C7. (1) However many applications call \<^verbatim>\<open>patchStrictSandbox\<close>, one after the other
  from any state, the interception of \<^verbatim>\<open>Document.prototype.createElement\<close> is
  installed once if it was not installed and not at all if it was; the same holds for
  the interception of the head and body methods. (2) A call of
  \<^verbatim>\<open>patchStrictSandbox\<close> adds one to the patch counter of its phase, leaves the other
  counter as it is, leaves both interceptions installed and returns the freer of its
  phase and facade. (3) A freer subtracts one from the patch counter of its phase
  (the bootstrap counter stays zero when it is zero) and leaves the other counter as
  it is; afterwards the interceptions are installed exactly when they were installed
  before and the two counters are not both zero: the freer restores the original
  methods only when both counters have reached zero. (4) So from a state in which
  both counters are zero, when applications have patched and some of their freers
  have run (of each phase no more freers than there were calls), the interceptions
  are installed exactly when fewer freers have run than applications have patched:
  they are removed by the last freer. (5) Whatever the counters are, the freer
  returns a rebuilder; run on a wrapper element, the rebuilder appends to it recorded
  elements only, and only elements the wrapper did not contain, and afterwards the
  wrapper contains every recorded element.
\<close>

theorem strict_patch_reference_count:
  "createElementInstallations (patch_all calls st) =
     (if createElementPatched st \<or> calls = [] then createElementInstallations st
      else Suc (createElementInstallations st)) \<and>
   dynamicAppendInstallations (patch_all calls st) =
     (if dynamicAppendPatched st \<or> calls = [] then dynamicAppendInstallations st
      else Suc (dynamicAppendInstallations st)) \<and>
   bootstrappingPatchCount (snd (patchStrictSandbox nm prx mounting scopedCSS st)) =
     (if mounting then bootstrappingPatchCount st else bootstrappingPatchCount st + 1) \<and>
   mountingPatchCount (snd (patchStrictSandbox nm prx mounting scopedCSS st)) =
     (if mounting then mountingPatchCount st + 1 else mountingPatchCount st) \<and>
   createElementPatched (snd (patchStrictSandbox nm prx mounting scopedCSS st)) \<and>
   dynamicAppendPatched (snd (patchStrictSandbox nm prx mounting scopedCSS st)) \<and>
   fst (patchStrictSandbox nm prx mounting scopedCSS st) = StrictFreer mounting prx \<and>
   bootstrappingPatchCount (snd (free (StrictFreer mounting prx) st)) =
     (if \<not> mounting \<and> bootstrappingPatchCount st \<noteq> 0
      then bootstrappingPatchCount st - 1 else bootstrappingPatchCount st) \<and>
   mountingPatchCount (snd (free (StrictFreer mounting prx) st)) =
     (if mounting then mountingPatchCount st - 1 else mountingPatchCount st) \<and>
   createElementPatched (snd (free (StrictFreer mounting prx) st)) =
     (createElementPatched st \<and>
      \<not> (mountingPatchCount (snd (free (StrictFreer mounting prx) st)) = 0 \<and>
         bootstrappingPatchCount (snd (free (StrictFreer mounting prx) st)) = 0)) \<and>
   dynamicAppendPatched (snd (free (StrictFreer mounting prx) st)) =
     (dynamicAppendPatched st \<and>
      \<not> (mountingPatchCount (snd (free (StrictFreer mounting prx) st)) = 0 \<and>
         bootstrappingPatchCount (snd (free (StrictFreer mounting prx) st)) = 0)) \<and>
   (bootstrappingPatchCount st = 0 \<and> mountingPatchCount st = 0 \<and> calls \<noteq> [] \<and>
    length (filter (\<lambda>f. \<not> is_mounting f) fs) \<le> bootstrapping_calls calls \<and>
    length (filter is_mounting fs) \<le> mounting_calls calls \<longrightarrow>
      createElementPatched (free_all fs (patch_all calls st)) = (length fs < length calls) \<and>
      dynamicAppendPatched (free_all fs (patch_all calls st)) = (length fs < length calls) \<and>
      bootstrappingPatchCount (free_all fs (patch_all calls st)) =
        int (bootstrapping_calls calls) - int (length (filter (\<lambda>f. \<not> is_mounting f) fs)) \<and>
      mountingPatchCount (free_all fs (patch_all calls st)) =
        int (mounting_calls calls) - int (length (filter is_mounting fs))) \<and>
   (\<exists>ys. rebuild (fst (free (StrictFreer mounting prx) st)) st' appWrapper =
            Element (element_id appWrapper) (children appWrapper @ ys) \<and>
          set ys \<subseteq> set (recorded_elements st' prx) \<and>
          (\<forall>e \<in> set ys. \<not> contains appWrapper (Some e)) \<and>
          (\<forall>e \<in> set (recorded_elements st' prx).
             contains (rebuild (fst (free (StrictFreer mounting prx) st)) st' appWrapper) (Some e)))"
proof -
  obtain i cs where w: "appWrapper = Element i cs"
    by (cases appWrapper) auto
  have r: "fst (free (StrictFreer mounting prx) st) = StrictRebuilder prx"
    by (simp add: Let_def)
  from rebuildCSSRules_reAppend[of "recorded_elements st' prx" i cs]
  have E: "\<exists>ys. rebuild (fst (free (StrictFreer mounting prx) st)) st' appWrapper =
            Element (element_id appWrapper) (children appWrapper @ ys) \<and>
          set ys \<subseteq> set (recorded_elements st' prx) \<and>
          (\<forall>e \<in> set ys. \<not> contains appWrapper (Some e)) \<and>
          (\<forall>e \<in> set (recorded_elements st' prx).
             contains (rebuild (fst (free (StrictFreer mounting prx) st)) st' appWrapper) (Some e))"
    unfolding r w by (auto simp: contains_def)
  have D: "createElementPatched (free_all fs (patch_all calls st)) = (length fs < length calls) \<and>
      dynamicAppendPatched (free_all fs (patch_all calls st)) = (length fs < length calls) \<and>
      bootstrappingPatchCount (free_all fs (patch_all calls st)) =
        int (bootstrapping_calls calls) - int (length (filter (\<lambda>f. \<not> is_mounting f) fs)) \<and>
      mountingPatchCount (free_all fs (patch_all calls st)) =
        int (mounting_calls calls) - int (length (filter is_mounting fs))"
    if z: "bootstrappingPatchCount st = 0" "mountingPatchCount st = 0" and ne: "calls \<noteq> []"
      and b: "length (filter (\<lambda>f. \<not> is_mounting f) fs) \<le> bootstrapping_calls calls"
      and m: "length (filter is_mounting fs) \<le> mounting_calls calls"
  proof -
    let ?st1 = "patch_all calls st"
    have c1: "bootstrappingPatchCount ?st1 = int (bootstrapping_calls calls)"
             "mountingPatchCount ?st1 = int (mounting_calls calls)"
      using patch_all_counts[of calls st] z by simp_all
    have p1: "createElementPatched ?st1" "dynamicAppendPatched ?st1"
      using patch_all_patched[of calls st] ne by simp_all
    have b1: "int (length (filter (\<lambda>f. \<not> is_mounting f) fs)) \<le> bootstrappingPatchCount ?st1"
      using b c1 by simp
    have m1: "int (length (filter is_mounting fs)) \<le> mountingPatchCount ?st1"
      using m c1 by simp
    note fa = free_all_counts[OF b1 m1]
    have bc: "bootstrappingPatchCount (free_all fs ?st1) =
                int (bootstrapping_calls calls) - int (length (filter (\<lambda>f. \<not> is_mounting f) fs))"
      using conjunct1[OF fa] c1 by simp
    have mc: "mountingPatchCount (free_all fs ?st1) =
                int (mounting_calls calls) - int (length (filter is_mounting fs))"
      using conjunct1[OF conjunct2[OF fa]] c1 by simp
    have lf: "length (filter is_mounting fs) + length (filter (\<lambda>f. \<not> is_mounting f) fs) = length fs"
      by (rule length_filter_split)
    have lc: "bootstrapping_calls calls + mounting_calls calls = length calls"
      by (rule calls_split)
    have rem: "(fs = [] \<or> bootstrappingPatchCount (free_all fs ?st1) \<noteq> 0 \<or>
                mountingPatchCount (free_all fs ?st1) \<noteq> 0) = (length fs < length calls)"
      using bc mc b m lf lc ne by (cases fs) auto
    show ?thesis
      using conjunct1[OF conjunct2[OF conjunct2[OF fa]]] conjunct2[OF conjunct2[OF conjunct2[OF fa]]]
            p1 rem bc mc
      by simp
  qed
  show ?thesis
    using patch_all_installations[of calls st] free_restores[of "StrictFreer mounting prx" st]
          patchStrictSandbox_counts[of nm prx mounting scopedCSS st]
          patchStrictSandbox_installations[of nm prx mounting scopedCSS st]
          free_counts[of mounting prx st] D E
    by blast
qed

theorem strict_patch_reference_count_witness:
  "createElementInstallations (patch_all two_patch_calls initial_patch_state) = 1 \<and>
   dynamicAppendInstallations (patch_all two_patch_calls initial_patch_state) = 1 \<and>
   bootstrappingPatchCount (patch_all two_patch_calls initial_patch_state) = 1 \<and>
   mountingPatchCount (patch_all two_patch_calls initial_patch_state) = 1 \<and>
   patch_freers two_patch_calls initial_patch_state =
     [StrictFreer False (ProxyRef 0), StrictFreer True (ProxyRef 1)] \<and>
   createElementPatched
     (free_all [StrictFreer True (ProxyRef 1)] (patch_all two_patch_calls initial_patch_state)) \<and>
   bootstrappingPatchCount
     (free_all [StrictFreer True (ProxyRef 1)] (patch_all two_patch_calls initial_patch_state)) = 1 \<and>
   mountingPatchCount
     (free_all [StrictFreer True (ProxyRef 1)] (patch_all two_patch_calls initial_patch_state)) = 0 \<and>
   \<not> createElementPatched
        (free_all [StrictFreer True (ProxyRef 1), StrictFreer False (ProxyRef 0)]
           (patch_all two_patch_calls initial_patch_state)) \<and>
   \<not> dynamicAppendPatched
        (free_all [StrictFreer True (ProxyRef 1), StrictFreer False (ProxyRef 0)]
           (patch_all two_patch_calls initial_patch_state)) \<and>
   rebuild (fst (free (StrictFreer True (ProxyRef 1)) styles_recorded)) styles_recorded example_wrapper
     = Element 10 [Element 11 [], Element 12 []] \<and>
   contains (rebuild (fst (free (StrictFreer True (ProxyRef 1)) styles_recorded))
               styles_recorded example_wrapper) (Some (Element 12 []))"
proof -
  note t1 = strict_patch_reference_count
              [where calls = two_patch_calls and st = initial_patch_state
                 and fs = "[StrictFreer True (ProxyRef 1)]"]
  note t2 = strict_patch_reference_count
              [where calls = two_patch_calls and st = initial_patch_state
                 and fs = "[StrictFreer True (ProxyRef 1), StrictFreer False (ProxyRef 0)]"]
  note t3 = strict_patch_reference_count
              [where calls = "[]" and st = styles_recorded and mounting = True
                 and prx = "ProxyRef 1" and st' = styles_recorded and appWrapper = example_wrapper]
  have i: "\<not> createElementPatched initial_patch_state" "\<not> dynamicAppendPatched initial_patch_state"
          "createElementInstallations initial_patch_state = 0"
          "dynamicAppendInstallations initial_patch_state = 0"
          "bootstrappingPatchCount initial_patch_state = 0"
          "mountingPatchCount initial_patch_state = 0"
          "two_patch_calls \<noteq> []"
    by (simp_all add: initial_patch_state_def two_patch_calls_def)
  have n: "bootstrapping_calls two_patch_calls = 1" "mounting_calls two_patch_calls = 1"
          "length two_patch_calls = 2"
    by (simp_all add: bootstrapping_calls_def mounting_calls_def two_patch_calls_def)
  have a: "createElementInstallations (patch_all two_patch_calls initial_patch_state) = 1"
    using conjunct1[OF t1] i by simp
  have b: "dynamicAppendInstallations (patch_all two_patch_calls initial_patch_state) = 1"
    using conjunct1[OF conjunct2[OF t1]] i by simp
  have c: "bootstrappingPatchCount (patch_all two_patch_calls initial_patch_state) = 1"
          "mountingPatchCount (patch_all two_patch_calls initial_patch_state) = 1"
    by (simp_all add: two_patch_calls_state)
  have pf: "patch_freers two_patch_calls initial_patch_state =
              [StrictFreer False (ProxyRef 0), StrictFreer True (ProxyRef 1)]"
    by (simp add: two_patch_calls_def patchStrictSandbox_counts)
  note count = conjunct1[OF conjunct2[OF conjunct2[OF conjunct2[OF conjunct2[OF conjunct2[OF
                 conjunct2[OF conjunct2[OF conjunct2[OF conjunct2[OF conjunct2[OF conjunct2]]]]]]]]]]]
  have h1: "bootstrappingPatchCount initial_patch_state = 0 \<and>
            mountingPatchCount initial_patch_state = 0 \<and> two_patch_calls \<noteq> [] \<and>
            length (filter (\<lambda>f. \<not> is_mounting f) [StrictFreer True (ProxyRef 1)])
              \<le> bootstrapping_calls two_patch_calls \<and>
            length (filter is_mounting [StrictFreer True (ProxyRef 1)])
              \<le> mounting_calls two_patch_calls"
    using i n by simp
  have h2: "bootstrappingPatchCount initial_patch_state = 0 \<and>
            mountingPatchCount initial_patch_state = 0 \<and> two_patch_calls \<noteq> [] \<and>
            length (filter (\<lambda>f. \<not> is_mounting f)
                      [StrictFreer True (ProxyRef 1), StrictFreer False (ProxyRef 0)])
              \<le> bootstrapping_calls two_patch_calls \<and>
            length (filter is_mounting
                      [StrictFreer True (ProxyRef 1), StrictFreer False (ProxyRef 0)])
              \<le> mounting_calls two_patch_calls"
    using i n by simp
  note one = mp[OF count[OF t1] h1]
  note two = mp[OF count[OF t2] h2]
  have d: "createElementPatched
             (free_all [StrictFreer True (ProxyRef 1)] (patch_all two_patch_calls initial_patch_state))"
    using conjunct1[OF one] n by simp
  have e: "bootstrappingPatchCount
             (free_all [StrictFreer True (ProxyRef 1)] (patch_all two_patch_calls initial_patch_state)) = 1"
          "mountingPatchCount
             (free_all [StrictFreer True (ProxyRef 1)] (patch_all two_patch_calls initial_patch_state)) = 0"
    using conjunct2[OF conjunct2[OF one]] n by simp_all
  have f: "\<not> createElementPatched
        (free_all [StrictFreer True (ProxyRef 1), StrictFreer False (ProxyRef 0)]
           (patch_all two_patch_calls initial_patch_state))"
          "\<not> dynamicAppendPatched
        (free_all [StrictFreer True (ProxyRef 1), StrictFreer False (ProxyRef 0)]
           (patch_all two_patch_calls initial_patch_state))"
    using conjunct1[OF two] conjunct1[OF conjunct2[OF two]] n by simp_all
  have r: "recorded_elements styles_recorded (ProxyRef 1) = [Element 11 [], Element 12 []]"
    by (simp add: recorded_elements_def styles_recorded_def)
  have g: "rebuild (fst (free (StrictFreer True (ProxyRef 1)) styles_recorded)) styles_recorded example_wrapper
             = Element 10 [Element 11 [], Element 12 []]"
    using r by (simp add: Let_def example_wrapper_def reAppendElement_def contains_def)
  from conjunct2[OF conjunct2[OF conjunct2[OF conjunct2[OF conjunct2[OF conjunct2[OF
         conjunct2[OF conjunct2[OF conjunct2[OF conjunct2[OF conjunct2[OF conjunct2[OF t3]]]]]]]]]]]] r
  have h: "contains (rebuild (fst (free (StrictFreer True (ProxyRef 1)) styles_recorded))
               styles_recorded example_wrapper) (Some (Element 12 []))"
    by auto
  show ?thesis
    using a b c pf d e f g h by (intro conjI)
qed

section \<open>The loader: misuse of the isolation flags with a legacy render function\<close>

text \<open>
  C8, as stated, fails: the error is not reported at setup. With a legacy render
  function and strict style isolation, the part of \<^verbatim>\<open>loadApp\<close> that sets the wrapper
  up does not throw: it calls the legacy render function with the content and creates
  the wrapper getter. \<^verbatim>\<open>getAppWrapperGetter\<close> returns a closure and checks nothing.
\<close>

theorem wrapper_getter_misuse_counterexample:
  "\<not> isl (loadApp_wrapperSetup id True Map.empty ''app'' ''app_1'' ''<div></div>''
             True True False (Element 1 []) None) \<and>
   fst (projr (loadApp_wrapperSetup id True Map.empty ''app'' ''app_1'' ''<div></div>''
                 True True False (Element 1 []) None)) = LegacyRenderCalled True ''<div></div>''"
  by (simp add: loadApp_wrapperSetup_def render_def)

text \<open>
  C8, amended. With a legacy render function, and the strict-style-isolation flag or
  the scoped-CSS flag set, every call of the wrapper getter throws a
  \<^verbatim>\<open>QiankunError\<close> that names the flag, whatever the document holds, and makes no
  element lookup (neither \<^verbatim>\<open>document.getElementById\<close> nor the element getter is
  called); nothing is retried. The error is raised when the getter is called, not at
  setup: setting the wrapper up under that configuration calls the legacy render
  function and returns the getter.
\<close>

theorem wrapper_getter_misuse:
  assumes "strictStyleIsolation \<or> scopedCSS"
  shows "getAppWrapperGetter getWrapperId supportShadowDOM nm appInstanceId
           True strictStyleIsolation scopedCSS elementGetter getElementById =
         (Inl (QiankunError
                 (if strictStyleIsolation
                  then ''strictStyleIsolation can not be used with legacy render!''
                  else ''experimentalStyleIsolation can not be used with legacy render!'')),
          []) \<and>
         loadApp_wrapperSetup getWrapperId supportShadowDOM getContainer nm appInstanceId appContent
           True strictStyleIsolation scopedCSS initialAppWrapperElement initialContainer =
         Inr (LegacyRenderCalled True appContent,
              getAppWrapperGetter getWrapperId supportShadowDOM nm appInstanceId
                True strictStyleIsolation scopedCSS (\<lambda>_. Some initialAppWrapperElement))"
  using assms by (auto simp: getAppWrapperGetter_def loadApp_wrapperSetup_def render_def)

theorem wrapper_getter_misuse_witness:
  "fst (getAppWrapperGetter id True ''app'' ''app_1'' True True False
          (\<lambda>_. Some (Element 1 [])) [''app_1'' \<mapsto> Element 1 []]) =
     Inl (QiankunError ''strictStyleIsolation can not be used with legacy render!'') \<and>
   snd (getAppWrapperGetter id True ''app'' ''app_1'' True True False
          (\<lambda>_. Some (Element 1 [])) [''app_1'' \<mapsto> Element 1 []]) = [] \<and>
   fst (getAppWrapperGetter id True ''app'' ''app_1'' True False True
          (\<lambda>_. Some (Element 1 [])) [''app_1'' \<mapsto> Element 1 []]) =
     Inl (QiankunError ''experimentalStyleIsolation can not be used with legacy render!'') \<and>
   getAppWrapperGetter id True ''app'' ''app_1'' True False False
          (\<lambda>_. Some (Element 1 [])) [''app_1'' \<mapsto> Element 1 []] =
     (Inr (WrapperElement (Element 1 [])), [GetElementById ''app_1''])"
proof -
  have a: "True \<or> False" by simp
  have b: "False \<or> True" by simp
  show ?thesis
    using conjunct1[OF wrapper_getter_misuse[OF a, where getWrapperId = id and supportShadowDOM = True
            and nm = "''app''" and appInstanceId = "''app_1''"
            and elementGetter = "\<lambda>_. Some (Element 1 [])"
            and getElementById = "[''app_1'' \<mapsto> Element 1 []]"]]
          conjunct1[OF wrapper_getter_misuse[OF b, where getWrapperId = id and supportShadowDOM = True
            and nm = "''app''" and appInstanceId = "''app_1''"
            and elementGetter = "\<lambda>_. Some (Element 1 [])"
            and getElementById = "[''app_1'' \<mapsto> Element 1 []]"]]
    by (simp add: getAppWrapperGetter_def assertElementExist_def wrapper_missing_msg_def Let_def)
qed


section \<open>The loader: rendering into a container that does not exist\<close>

text \<open>
  C9, as stated, fails: with a legacy render function, \<^verbatim>\<open>render\<close> hands over to it
  and never looks for the container. Here no container can be resolved and the phase
  is \<^verbatim>\<open>loading\<close>, yet \<^verbatim>\<open>render\<close> returns.
\<close>

theorem render_missing_container_counterexample:
  "Map.empty (Some ''#root'') = (None :: element option) \<and>
   render ''app'' ''<div></div>'' True Map.empty (Some (Element 1 [])) True (Some ''#root'') Loading =
     (Inr (), LegacyRenderCalled True ''<div></div>'')"
  by (simp add: render_def)

text \<open>
  C9, amended. When no legacy render function was given and the target container
  cannot be resolved, \<^verbatim>\<open>render\<close> throws a \<^verbatim>\<open>QiankunError\<close> in the phases
  \<^verbatim>\<open>loading\<close>, \<^verbatim>\<open>mounting\<close> and \<^verbatim>\<open>mounted\<close>, and renders nothing; the message names
  the container, the application and the phase. In the phase \<^verbatim>\<open>unmounted\<close> it
  returns without an error and renders nothing. When the container can be resolved,
  \<^verbatim>\<open>render\<close> returns in every phase. When a legacy render function was given,
  \<^verbatim>\<open>render\<close> hands over to it, with \<^verbatim>\<open>loading\<close> and the content (empty when there is
  no element), in every phase and whatever the container is: it never resolves or
  checks the container.
\<close>

theorem render_missing_container:
  "(getContainer container = None \<longrightarrow>
      render nm appContent False getContainer element loading container ph =
        (if ph = Unmounted then (Inr (), NothingRendered)
         else (Inl (QiankunError (render_errorMsg container nm ph)), NothingRendered)) \<and>
      (ph \<noteq> Unmounted \<longrightarrow>
         render_errorMsg container nm ph =
           ''Target container with '' @ container_text container @
           (if ph = Mounted then '' not existed after '' else '' not existed while '') @
           nm @ '' '' @ phase_name ph @ ''!'')) \<and>
   (getContainer container \<noteq> None \<longrightarrow>
      fst (render nm appContent False getContainer element loading container ph) = Inr ()) \<and>
   render nm appContent True getContainer element loading container ph =
     (Inr (), LegacyRenderCalled loading (if element \<noteq> None then appContent else []))"
  by (cases ph) (auto simp: render_def assertElementExist_def Let_def)

theorem render_missing_container_witness:
  "Map.empty (Some ''#root'') = (None :: element option) \<and>
   render ''app'' ''<div></div>'' False Map.empty (Some (Element 1 [])) True (Some ''#root'') Mounting =
     (Inl (QiankunError ''Target container with #root not existed while app mounting!''),
      NothingRendered) \<and>
   render ''app'' ''<div></div>'' False Map.empty None False (Some ''#root'') Unmounted =
     (Inr (), NothingRendered) \<and>
   fst (render ''app'' ''<div></div>'' False [Some ''#root'' \<mapsto> Element 5 []]
          (Some (Element 1 [])) True (Some ''#root'') Mounting) = Inr () \<and>
   render ''app'' ''<div></div>'' True Map.empty None False (Some ''#root'') Mounted =
     (Inr (), LegacyRenderCalled False [])"
proof -
  have e: "Map.empty (Some ''#root'') = (None :: element option)" by simp
  have f: "[Some ''#root'' \<mapsto> Element 5 []] (Some ''#root'') \<noteq> None" by simp
  note a = render_missing_container[where getContainer = Map.empty and container = "Some ''#root''"
            and nm = "''app''" and appContent = "''<div></div>''"
            and element = "Some (Element 1 [])" and loading = True and ph = Mounting]
  note b = render_missing_container[where getContainer = Map.empty and container = "Some ''#root''"
            and nm = "''app''" and appContent = "''<div></div>''"
            and element = None and loading = False and ph = Unmounted]
  note c = render_missing_container[where getContainer = "[Some ''#root'' \<mapsto> Element 5 []]"
            and container = "Some ''#root''"
            and nm = "''app''" and appContent = "''<div></div>''"
            and element = "Some (Element 1 [])" and loading = True and ph = Mounting]
  note d = render_missing_container[where getContainer = Map.empty and container = "Some ''#root''"
            and nm = "''app''" and appContent = "''<div></div>''"
            and element = None and loading = False and ph = Mounted]
  have 1: "render ''app'' ''<div></div>'' False Map.empty (Some (Element 1 [])) True (Some ''#root'') Mounting =
     (Inl (QiankunError ''Target container with #root not existed while app mounting!''),
      NothingRendered)"
    using mp[OF conjunct1[OF a] e] by simp
  have 2: "render ''app'' ''<div></div>'' False Map.empty None False (Some ''#root'') Unmounted =
     (Inr (), NothingRendered)"
    using mp[OF conjunct1[OF b] e] by simp
  have 3: "fst (render ''app'' ''<div></div>'' False [Some ''#root'' \<mapsto> Element 5 []]
          (Some (Element 1 [])) True (Some ''#root'') Mounting) = Inr ()"
    using mp[OF conjunct1[OF conjunct2[OF c]] f] .
  have 4: "render ''app'' ''<div></div>'' True Map.empty None False (Some ''#root'') Mounted =
     (Inr (), LegacyRenderCalled False [])"
    using conjunct2[OF conjunct2[OF d]] by simp
  show ?thesis using e 1 2 3 4 by (intro conjI)
qed

end
